theory Spec2Isabelle
  imports Complex_Main
begin

section \<open>Python values\<close>

text \<open>
  A Python \<open>str\<close> is a sequence of Unicode code points, so a string is a list of
  natural numbers and slicing (\<open>user_query[:20]\<close>) counts code points.  ASCII
  literals of the source are written \<open>lit ''...''\<close>; every other character is given
  by its code point.
\<close>

type_synonym pystr = "nat list"

definition lit :: "string \<Rightarrow> pystr" where
  "lit s = map of_char s"

text \<open>
  The values that \<open>response.json()\<close> can deliver, which are also the values the
  session state and the secrets store hold.  \<open>JNull\<close> is Python's \<open>None\<close>.  A
  float is given by the number it denotes.  An object is the list of its items; a key
  is looked up with \<open>map_of\<close>.
\<close>

datatype json =
    JNull
  | JBool bool
  | JInt int
  | JFloat rat
  | JStr pystr
  | JArr "json list"
  | JObj "(pystr \<times> json) list"

text \<open>Truth value testing, as in \<open>if research_data:\<close>.\<close>

fun truthy :: "json \<Rightarrow> bool" where
  "truthy JNull = False"
| "truthy (JBool b) = b"
| "truthy (JInt n) = (n \<noteq> 0)"
| "truthy (JFloat x) = (x \<noteq> 0)"
| "truthy (JStr s) = (s \<noteq> [])"
| "truthy (JArr xs) = (xs \<noteq> [])"
| "truthy (JObj kvs) = (kvs \<noteq> [])"

text \<open>
  The exceptions the code can meet.  \<open>KeyError\<close> carries the missing key,
  \<open>IndexError\<close> and \<open>TypeError\<close> the object that was indexed or searched,
  \<open>JSONDecodeError\<close> and \<open>RequestException\<close> the message of the library, and
  \<open>SecretNotFoundError\<close> the message of the secrets store when it cannot be read.
\<close>

datatype py_exn =
    KeyError json
  | IndexError json
  | TypeError json
  | JSONDecodeError pystr
  | RequestException pystr
  | SecretNotFoundError pystr

text \<open>
  Two built-ins of the interpreter are parameters of the model: the text \<open>str(v)\<close> of a
  value that is not a string (used by the f-strings), and the text \<open>str(e)\<close> of an
  exception.  On a string, \<open>str\<close> is the identity.
\<close>

record py_runtime =
  str_value :: "json \<Rightarrow> pystr"
  str_exn :: "py_exn \<Rightarrow> pystr"

definition py_str :: "py_runtime \<Rightarrow> json \<Rightarrow> pystr" where
  "py_str rt v = (case v of JStr s \<Rightarrow> s | _ \<Rightarrow> str_value rt v)"

text \<open>Sequencing inside a \<open>try\<close> block: the first exception ends the block.\<close>

definition ebind :: "py_exn + 'a \<Rightarrow> ('a \<Rightarrow> py_exn + 'b) \<Rightarrow> py_exn + 'b" where
  "ebind m f = (case m of Inl e \<Rightarrow> Inl e | Inr x \<Rightarrow> f x)"

text \<open>\<open>s.startswith(p)\<close> and the substring test \<open>p in s\<close> on strings.\<close>

fun starts_with :: "pystr \<Rightarrow> pystr \<Rightarrow> bool" where
  "starts_with s [] = True"
| "starts_with [] (p # ps) = False"
| "starts_with (c # cs) (p # ps) = (c = p \<and> starts_with cs ps)"

fun substring_in :: "pystr \<Rightarrow> pystr \<Rightarrow> bool" where
  "substring_in p [] = (p = [])"
| "substring_in p (c # cs) = (starts_with (c # cs) p \<or> substring_in p cs)"

text \<open>
  \<open>k in v\<close> for a string \<open>k\<close>: key membership on an object, element membership on a
  list, substring test on a string, \<open>TypeError\<close> on anything else.
\<close>

fun contains :: "pystr \<Rightarrow> json \<Rightarrow> py_exn + bool" where
  "contains k (JObj kvs) = Inr (map_of kvs k \<noteq> None)"
| "contains k (JArr xs) = Inr (JStr k \<in> set xs)"
| "contains k (JStr s) = Inr (substring_in k s)"
| "contains k v = Inl (TypeError v)"

text \<open>\<open>v[k]\<close> for a string \<open>k\<close>.\<close>

fun subscript :: "json \<Rightarrow> pystr \<Rightarrow> py_exn + json" where
  "subscript (JObj kvs) k =
     (case map_of kvs k of Some v \<Rightarrow> Inr v | None \<Rightarrow> Inl (KeyError (JStr k)))"
| "subscript v k = Inl (TypeError v)"

text \<open>\<open>v[0]\<close>.  The keys of a parsed object are strings, so \<open>0\<close> is never one.\<close>

fun subscript0 :: "json \<Rightarrow> py_exn + json" where
  "subscript0 (JArr xs) = (case xs of [] \<Rightarrow> Inl (IndexError (JArr xs)) | x # _ \<Rightarrow> Inr x)"
| "subscript0 (JStr s) = (case s of [] \<Rightarrow> Inl (IndexError (JStr s)) | c # _ \<Rightarrow> Inr (JStr [c]))"
| "subscript0 (JObj kvs) = Inl (KeyError (JInt 0))"
| "subscript0 v = Inl (TypeError v)"

text \<open>
  The items that \<open>for topic in v[:3]\<close> visits: the first three elements of a list,
  the first three characters of a string; any other value cannot be sliced.
\<close>

fun first_three :: "json \<Rightarrow> py_exn + json list" where
  "first_three (JArr xs) = Inr (take 3 xs)"
| "first_three (JStr s) = Inr (map (\<lambda>c. JStr [c]) (take 3 s))"
| "first_three v = Inl (TypeError v)"

text \<open>\<open>sep.join(xs)\<close>.\<close>

fun join :: "pystr \<Rightarrow> pystr list \<Rightarrow> pystr" where
  "join sep [] = []"
| "join sep [x] = x"
| "join sep (x # y # ys) = x @ sep @ join sep (y # ys)"

section \<open>The outside world and the page\<close>

text \<open>
  The calls of the HTTP library: \<open>GET url timeout\<close> is \<open>requests.get(url, timeout=...)\<close>
  and \<open>POST url headers body timeout\<close> is \<open>requests.post(url, headers=..., json=...,
  timeout=...)\<close>.  The URL is the argument of the call; what the library makes of it
  for the request is modelled further down (\<open>prepare_url\<close>).
\<close>

datatype http_request =
    GET pystr nat
  | POST pystr "(pystr \<times> pystr) list" json nat

text \<open>
  A request either raises (connection error, timeout) or delivers a response: its
  status code and what \<open>response.json()\<close> gives, a value or a decoding error.
\<close>

datatype http_outcome =
    Raised py_exn
  | Response int "py_exn + json"

text \<open>
  What the program reads from outside: the environment variables, the secrets store
  and the answer of the network to each request.  The secrets store is a mapping when
  it can be read; when no secrets file exists, every access to it raises.
\<close>

record world =
  environ :: "pystr \<Rightarrow> pystr option"
  secrets :: "py_exn + (pystr \<Rightarrow> json option)"
  http :: "http_request \<Rightarrow> http_outcome"

datatype ui_event =
    StMarkdown pystr
  | StHeader pystr
  | StButton pystr
  | StTextInput pystr pystr
  | StWrite json
  | StCode json
  | StSuccess pystr
  | StInfo pystr
  | StWarning pystr
  | StError pystr
  | StSpinner pystr
  | StExpander pystr
  | StDownloadButton pystr json pystr pystr
  | StException py_exn

text \<open>
  The session state (\<open>research_data\<close>, \<open>chart_code\<close>, \<open>selected_query\<close>), what the
  current run has put on the page, and the requests it has sent.  \<open>StException\<close> is
  the report of an exception that nothing caught: it ends the run.
\<close>

record app =
  research_data :: json
  chart_code :: json
  selected_query :: "pystr option"
  screen :: "ui_event list"
  sent :: "http_request list"

definition emit :: "ui_event \<Rightarrow> app \<Rightarrow> app" where
  "emit e a = a\<lparr>screen := screen a @ [e]\<rparr>"

definition request :: "world \<Rightarrow> http_request \<Rightarrow> app \<Rightarrow> http_outcome \<times> app" where
  "request w r a = (http w r, a\<lparr>sent := sent a @ [r]\<rparr>)"

section \<open>The search client\<close>

definition search_url :: "pystr \<Rightarrow> pystr" where
  "search_url query =
     lit ''https://api.duckduckgo.com/?q='' @ query @ lit ''&format=json&no_redirect=1''"

text \<open>The loop over the related topics, appending to \<open>results\<close>.\<close>

fun related_loop :: "py_runtime \<Rightarrow> json list \<Rightarrow> pystr list \<Rightarrow> pystr list" where
  "related_loop rt [] results = results"
| "related_loop rt (topic # topics) results =
     related_loop rt topics
       (case topic of
          JObj kvs \<Rightarrow>
            (case map_of kvs (lit ''Text'') of
               Some v \<Rightarrow> results @ [lit ''Related: '' @ py_str rt v]
             | None \<Rightarrow> results)
        | _ \<Rightarrow> results)"

text \<open>The body of the \<open>status_code == 200\<close> branch, from the parsed \<open>data\<close> on.\<close>

definition extract_results :: "py_runtime \<Rightarrow> pystr \<Rightarrow> json \<Rightarrow> py_exn + pystr" where
  "extract_results rt query data =
     ebind (contains (lit ''AbstractText'') data) (\<lambda>has_abstract.
     ebind (if has_abstract
            then ebind (subscript data (lit ''AbstractText'')) (\<lambda>v. Inr (truthy v))
            else Inr False) (\<lambda>use_abstract.
     ebind (if use_abstract
            then ebind (subscript data (lit ''AbstractText''))
                   (\<lambda>v. Inr [lit ''Summary: '' @ py_str rt v])
            else Inr []) (\<lambda>results.
     ebind (contains (lit ''RelatedTopics'') data) (\<lambda>has_related.
     ebind (if has_related
            then ebind (subscript data (lit ''RelatedTopics'')) (\<lambda>v.
                 ebind (first_three v) (\<lambda>topics.
                 Inr (related_loop rt topics results)))
            else Inr results) (\<lambda>results.
     Inr (if results \<noteq> [] then join [10, 10] results
          else lit ''Basic search completed for: '' @ query))))))"

definition search_status_fallback :: "pystr \<Rightarrow> pystr" where
  "search_status_fallback query =
     lit ''Search completed for: '' @ query
       @ lit ''. Please provide more specific terms for better results.''"

definition search_error_fallback :: "pystr \<Rightarrow> pystr" where
  "search_error_fallback query =
     lit ''Web search for '' @ [39] @ query @ [39]
       @ lit '' completed. Manual research may be needed for specific data.''"

definition search_web :: "py_runtime \<Rightarrow> world \<Rightarrow> pystr \<Rightarrow> app \<Rightarrow> pystr \<times> app" where
  "search_web rt w query a =
     (let (outcome, a') = request w (GET (search_url query) 10) a;
          attempt =
            (case outcome of
               Raised e \<Rightarrow> Inl e
             | Response status_code body \<Rightarrow>
                 if status_code = 200
                 then ebind body (extract_results rt query)
                 else Inr (search_status_fallback query))
      in (case attempt of
            Inr text \<Rightarrow> (text, a')
          | Inl e \<Rightarrow> (search_error_fallback query, a')))"

section \<open>The chat-completion wrapper\<close>

text \<open>
  \<open>st.secrets.get(k, d)\<close>: the value of the key, the default when the store has no
  such key, and the exception of the store when it cannot be read.
\<close>

definition secrets_get :: "world \<Rightarrow> pystr \<Rightarrow> json \<Rightarrow> py_exn + json" where
  "secrets_get w k d =
     (case secrets w of
        Inl e \<Rightarrow> Inl e
      | Inr store \<Rightarrow> Inr (case store k of Some v \<Rightarrow> v | None \<Rightarrow> d))"

definition getenv :: "world \<Rightarrow> pystr \<Rightarrow> json" where
  "getenv w k = (case environ w k of Some v \<Rightarrow> JStr v | None \<Rightarrow> JNull)"

text \<open>
  \<open>os.getenv("OPENAI_API_KEY") or st.secrets.get("OPENAI_API_KEY", "")\<close>: the
  secrets store is consulted only when the environment gives nothing.
\<close>

definition get_api_key :: "world \<Rightarrow> py_exn + json" where
  "get_api_key w =
     (let e = getenv w (lit ''OPENAI_API_KEY'')
      in if truthy e then Inr e else secrets_get w (lit ''OPENAI_API_KEY'') (JStr []))"

definition key_not_found_message :: pystr where
  "key_not_found_message =
     [0x274C] @ lit '' OpenAI API key not found. Please add it in Streamlit secrets.''"

definition chat_request :: "py_runtime \<Rightarrow> json \<Rightarrow> json \<Rightarrow> http_request" where
  "chat_request rt api_key messages =
     POST (lit ''https://api.openai.com/v1/chat/completions'')
       [(lit ''Authorization'', lit ''Bearer '' @ py_str rt api_key),
        (lit ''Content-Type'', lit ''application/json'')]
       (JObj [(lit ''model'', JStr (lit ''gpt-4-1106-preview'')),
              (lit ''messages'', messages),
              (lit ''temperature'', JFloat (1 / 10)),
              (lit ''max_tokens'', JInt 2000)])
       30"

text \<open>\<open>result['choices'][0]['message']['content']\<close>.\<close>

definition first_choice_content :: "json \<Rightarrow> py_exn + json" where
  "first_choice_content result =
     ebind (subscript result (lit ''choices'')) (\<lambda>choices.
     ebind (subscript0 choices) (\<lambda>choice.
     ebind (subscript choice (lit ''message'')) (\<lambda>message.
     subscript message (lit ''content''))))"

definition call_openai_api :: "py_runtime \<Rightarrow> world \<Rightarrow> json \<Rightarrow> app \<Rightarrow> json \<times> app" where
  "call_openai_api rt w messages a =
     (case get_api_key w of
        Inl e \<Rightarrow> (JStr (lit ''Error calling OpenAI API: '' @ str_exn rt e), a)
      | Inr api_key \<Rightarrow>
          if \<not> truthy api_key then (JStr key_not_found_message, a)
          else
            (let (outcome, a') = request w (chat_request rt api_key messages) a;
                 attempt =
                   (case outcome of
                      Raised e \<Rightarrow> Inl e
                    | Response status_code body \<Rightarrow>
                        if status_code = 200
                        then ebind body first_choice_content
                        else Inr (JStr (lit ''API Error: '' @ py_str rt (JInt status_code)
                                    @ lit ''. Please check your API key and try again.'')))
             in (case attempt of
                   Inr v \<Rightarrow> (v, a')
                 | Inl e \<Rightarrow> (JStr (lit ''Error calling OpenAI API: '' @ str_exn rt e), a'))))"

section \<open>The two agents\<close>

definition research_working_html :: pystr where
  "research_working_html = concat
    [[10],
     lit ''    <div class='', [34], lit ''step-box research-box'', [34], lit ''>'', [10],
     lit ''        <h3>'', [0x1F50D], lit '' RESEARCH AGENT WORKING...</h3>'', [10],
     lit ''        <p>Searching for data related to your query...</p>'', [10],
     lit ''    </div>'', [10],
     lit ''    '']"

definition research_system_prompt :: pystr where
  "research_system_prompt = concat
    [lit ''You are a research specialist. Analyze the query and provide structured data that can be used for visualization. '',
     [10, 10],
     lit ''If you have search results, extract numerical data. If not, provide typical/example data that would answer the query.'',
     [10, 10],
     lit ''Format your response as:'', [10],
     lit ''1. Data Summary'', [10],
     lit ''2. Key Numbers/Statistics  '', [10],
     lit ''3. Recommended Chart Type'', [10],
     lit ''4. Data Structure for Visualization'',
     [10, 10],
     lit ''Be specific with numbers, dates, and sources when available.'']"

definition research_messages :: "pystr \<Rightarrow> pystr \<Rightarrow> json" where
  "research_messages query search_results =
     JArr
       [JObj [(lit ''role'', JStr (lit ''system'')),
              (lit ''content'', JStr research_system_prompt)],
        JObj [(lit ''role'', JStr (lit ''user'')),
              (lit ''content'',
               JStr (lit ''Query: '' @ query @ [10, 10] @ lit ''Search Results: ''
                 @ search_results @ [10, 10]
                 @ lit ''Please provide structured data for visualization.''))]]"

definition research_agent :: "py_runtime \<Rightarrow> world \<Rightarrow> pystr \<Rightarrow> app \<Rightarrow> json \<times> app" where
  "research_agent rt w query a =
     (let a1 = emit (StMarkdown research_working_html) a;
          (search_results, a2) = search_web rt w query a1
      in call_openai_api rt w (research_messages query search_results) a2)"

definition chart_working_html :: pystr where
  "chart_working_html = concat
    [[10],
     lit ''    <div class='', [34], lit ''step-box code-box'', [34], lit ''>'', [10],
     lit ''        <h3>'', [0x1F4CA], lit '' CHART GENERATOR WORKING...</h3>'', [10],
     lit ''        <p>Creating Python code for your visualization...</p>'', [10],
     lit ''    </div>'', [10],
     lit ''    '']"

definition chart_system_prompt :: pystr where
  "chart_system_prompt = concat
    [lit ''You are a data visualization expert. Create complete, runnable Python code using matplotlib that users can copy and run locally.'',
     [10, 10],
     lit ''Your code must include:'', [10],
     lit ''1. All necessary imports (matplotlib.pyplot as plt, pandas as pd, numpy as np)'', [10],
     lit ''2. Data setup (create sample data if needed)'', [10],
     lit ''3. Professional chart creation with proper styling'', [10],
     lit ''4. Clear labels, titles, and formatting'', [10],
     lit ''5. plt.show() at the end'',
     [10, 10],
     lit ''Choose the appropriate chart type (line, bar, scatter, pie, etc.) based on the data and query.'',
     [10, 10],
     lit ''Make the code self-contained and ready to run.'']"

definition chart_messages :: "py_runtime \<Rightarrow> json \<Rightarrow> pystr \<Rightarrow> json" where
  "chart_messages rt research original_query =
     JArr
       [JObj [(lit ''role'', JStr (lit ''system'')),
              (lit ''content'', JStr chart_system_prompt)],
        JObj [(lit ''role'', JStr (lit ''user'')),
              (lit ''content'',
               JStr (lit ''Original Query: '' @ original_query @ [10, 10]
                 @ lit ''Research Data: '' @ py_str rt research @ [10, 10]
                 @ lit ''Create complete Python visualization code.''))]]"

definition chart_generator_agent ::
  "py_runtime \<Rightarrow> world \<Rightarrow> json \<Rightarrow> pystr \<Rightarrow> app \<Rightarrow> json \<times> app" where
  "chart_generator_agent rt w research original_query a =
     (let a1 = emit (StMarkdown chart_working_html) a
      in call_openai_api rt w (chart_messages rt research original_query) a1)"

section \<open>The page script\<close>

text \<open>
  What the widgets return in one run of the script: which example button was pressed
  (the buttons are keyed by their query), the text of the input box, and whether the
  generate button was pressed.
\<close>

record ui_input =
  example_clicked :: "pystr \<Rightarrow> bool"
  user_query :: pystr
  generate_clicked :: bool

text \<open>
  The session state before the first run (the two \<open>if ... not in st.session_state\<close>
  initialisations at the top of the script).
\<close>

definition initial_app :: app where
  "initial_app =
     \<lparr>research_data = JNull, chart_code = JNull, selected_query = None,
      screen = [], sent = []\<rparr>"

definition main_header_html :: pystr where
  "main_header_html = concat
    [[10],
     lit ''    <div class='', [34], lit ''main-header'', [34], lit ''>'', [10],
     lit ''        <h1>'', [0x1F916], lit '' AI Research & Chart Generator</h1>'', [10],
     lit ''        <p>AI-Powered Data Research and Visualization Code Generator</p>'', [10],
     lit ''    </div>'', [10],
     lit ''    '']"

definition how_it_works_md :: pystr where
  "how_it_works_md = concat
    [[10],
     lit ''        1. **'', [0x1F50D], lit '' Research**: AI searches for your data'', [10],
     lit ''        2. **'', [0x1F4CA], lit '' Generate**: AI creates Python chart code  '', [10],
     lit ''        3. **'', [0x1F4DD], lit '' Copy**: Copy code to run locally'', [10],
     lit ''        '']"

definition example_queries :: "pystr list" where
  "example_queries =
     [lit ''Top 10 most populated countries bar chart'',
      lit ''UK GDP past 3 years line chart'',
      lit ''Bitcoin price trend last 6 months'',
      lit ''Global temperature trends decade'',
      lit ''IPL winners last 5 years scores'']"

fun example_buttons :: "(pystr \<Rightarrow> bool) \<Rightarrow> pystr list \<Rightarrow> app \<Rightarrow> app" where
  "example_buttons clicked [] a = a"
| "example_buttons clicked (query # queries) a =
     example_buttons clicked queries
       (let a1 = emit (StButton ([0x1F4DD] @ lit '' '' @ query)) a
        in if clicked query then a1\<lparr>selected_query := Some query\<rparr> else a1)"

definition sidebar :: "ui_input \<Rightarrow> app \<Rightarrow> app" where
  "sidebar inp a =
     (let a1 = emit (StHeader ([0x1F4CB] @ lit '' How it works'')) a;
          a2 = emit (StMarkdown how_it_works_md) a1;
          a3 = emit (StHeader ([0x1F4A1] @ lit '' Example Queries'')) a2
      in example_buttons (example_clicked inp) example_queries a3)"

definition research_results_html :: pystr where
  "research_results_html = concat
    [[10],
     lit ''                <div class='', [34], lit ''step-box research-box'', [34], lit ''>'', [10],
     lit ''                    <h3>'', [0x1F50D], lit '' Research Results</h3>'', [10],
     lit ''                </div>'', [10],
     lit ''                '']"

definition chart_results_html :: pystr where
  "chart_results_html = concat
    [[10],
     lit ''                    <div class='', [34], lit ''step-box code-box'', [34], lit ''>'', [10],
     lit ''                        <h3>'', [0x1F4CA], lit '' Generated Chart Code</h3>'', [10],
     lit ''                    </div>'', [10],
     lit ''                    '']"

text \<open>\<open>s.replace(' ', '_')\<close> and the name of the downloaded file.\<close>

definition replace_space :: "pystr \<Rightarrow> pystr" where
  "replace_space s = map (\<lambda>c. if c = 32 then 95 else c) s"

definition download_file_name :: "pystr \<Rightarrow> pystr" where
  "download_file_name query = lit ''chart_'' @ replace_space (take 20 query) @ lit ''.py''"

text \<open>Display of the chart code and the download button.\<close>

definition show_chart_code :: "pystr \<Rightarrow> app \<Rightarrow> app" where
  "show_chart_code query a =
     (let a1 = emit (StMarkdown chart_results_html) a;
          a2 = emit (StCode (chart_code a1)) a1;
          a3 = emit (StSuccess ([0x1F389] @ lit '' Chart code generated successfully!'')) a2;
          a4 = emit (StInfo ([0x1F4A1]
                 @ lit '' Copy the code above and run it in your local Python environment.'')) a3
      in emit (StDownloadButton ([0x1F4E5] @ lit '' Download Python Code'')
                 (chart_code a4) (download_file_name query) (lit ''text/plain'')) a4)"

text \<open>Step 2 of a submission: generate the chart code from the stored research.\<close>

definition chart_step :: "py_runtime \<Rightarrow> world \<Rightarrow> pystr \<Rightarrow> app \<Rightarrow> app" where
  "chart_step rt w query a =
     (let a1 = emit (StMarkdown research_results_html) a;
          a2 = emit (StWrite (research_data a1)) a1;
          a3 = emit (StSpinner ([0x1F4CA] @ lit '' Generating chart code...'')) a2;
          (code, a4) = chart_generator_agent rt w (research_data a3) query a3;
          a5 = (if truthy code then a4\<lparr>chart_code := code\<rparr> else a4)
      in if truthy (chart_code a5) then show_chart_code query a5 else a5)"

text \<open>The branch of a pressed generate button with a non-empty query.\<close>

definition submission :: "py_runtime \<Rightarrow> world \<Rightarrow> pystr \<Rightarrow> app \<Rightarrow> app" where
  "submission rt w query a =
     (let a1 = a\<lparr>research_data := JNull, chart_code := JNull\<rparr>;
          a2 = emit (StSpinner ([0x1F50D] @ lit '' Researching data...'')) a1;
          (research, a3) = research_agent rt w query a2;
          a4 = (if truthy research then a3\<lparr>research_data := research\<rparr> else a3)
      in if truthy (research_data a4) then chart_step rt w query a4 else a4)"

definition previous_results :: "app \<Rightarrow> app" where
  "previous_results a =
     (if truthy (research_data a) \<and> truthy (chart_code a)
      then
        (let a1 = emit (StMarkdown (lit ''---'')) a;
             a2 = emit (StHeader ([0x1F4CB] @ lit '' Previous Results'')) a1;
             a3 = emit (StExpander (lit ''View Research Data'')) a2;
             a4 = emit (StWrite (research_data a3)) a3;
             a5 = emit (StExpander (lit ''View Chart Code'')) a4
         in emit (StCode (chart_code a5)) a5)
      else a)"

text \<open>
  One run of \<open>main\<close>.  The lookup of the key is outside any \<open>try\<close>: when it
  raises, the run ends there with the exception.  \<open>st.stop()\<close> ends the run too, so
  the branch without a key returns the state as it is after the three messages.
\<close>

definition main :: "py_runtime \<Rightarrow> world \<Rightarrow> ui_input \<Rightarrow> app \<Rightarrow> app" where
  "main rt w inp a =
     (let a1 = emit (StMarkdown main_header_html) a;
          a2 = sidebar inp a1
      in case get_api_key w of
           Inl e \<Rightarrow> emit (StException e) a2
         | Inr api_key \<Rightarrow>
             if \<not> truthy api_key
             then
               (let a3 = emit (StError ([0x274C] @ lit '' OpenAI API key not found!'')) a2;
                    a4 = emit (StInfo
                           (lit ''Please add your OpenAI API key in Streamlit secrets:'')) a3
                in emit (StCode (JStr (lit ''OPENAI_API_KEY = '' @ [34]
                          @ lit ''sk-your-key-here'' @ [34]))) a4)
             else
               (let a3 = emit (StSuccess ([0x2705] @ lit '' AI System Ready!'')) a2;
                    a4 = emit (StTextInput
                           ([0x1F3AF] @ lit '' What would you like to research and visualize?'')
                           (case selected_query a3 of Some q \<Rightarrow> q | None \<Rightarrow> [])) a3;
                    a5 = emit (StButton ([0x1F680] @ lit '' Generate Research & Chart Code'')) a4;
                    a6 = (if generate_clicked inp
                          then (if user_query inp \<noteq> []
                                then submission rt w (user_query inp) a5
                                else emit (StWarning ([0x26A0, 0xFE0F]
                                       @ lit '' Please enter a query!'')) a5)
                          else a5)
                in previous_results a6))"

text \<open>
  A rerun of the script draws the page anew and keeps the session state.
\<close>

definition rerun :: "py_runtime \<Rightarrow> world \<Rightarrow> ui_input \<Rightarrow> app \<Rightarrow> app" where
  "rerun rt w inp a = main rt w inp (a\<lparr>screen := [], sent := []\<rparr>)"

section \<open>Values returned, apart from the page state\<close>

text \<open>
  What each function returns does not depend on the page state it is run in (shown
  below); these names stand for the returned values.
\<close>

text \<open>The key with which the chat requests are sent, when there is one.\<close>

definition credential :: "world \<Rightarrow> json option" where
  "credential w =
     (case get_api_key w of
        Inr k \<Rightarrow> if truthy k then Some k else None
      | Inl e \<Rightarrow> None)"

definition search_result :: "py_runtime \<Rightarrow> world \<Rightarrow> pystr \<Rightarrow> pystr" where
  "search_result rt w query = fst (search_web rt w query initial_app)"

definition chat_result :: "py_runtime \<Rightarrow> world \<Rightarrow> json \<Rightarrow> json" where
  "chat_result rt w messages = fst (call_openai_api rt w messages initial_app)"

definition research_result :: "py_runtime \<Rightarrow> world \<Rightarrow> pystr \<Rightarrow> json" where
  "research_result rt w query = fst (research_agent rt w query initial_app)"

definition chart_result :: "py_runtime \<Rightarrow> world \<Rightarrow> json \<Rightarrow> pystr \<Rightarrow> json" where
  "chart_result rt w research query =
     fst (chart_generator_agent rt w research query initial_app)"

text \<open>
  A run is a submission when it reaches the branch of the pressed button with a
  non-empty query: the credential check has passed, the button is pressed and the
  query is not empty.
\<close>

definition submits :: "world \<Rightarrow> ui_input \<Rightarrow> bool" where
  "submits w inp \<longleftrightarrow>
     credential w \<noteq> None \<and> generate_clicked inp \<and> user_query inp \<noteq> []"

text \<open>
  The session states that a sequence of runs can reach, each with its current query:
  the query of the latest submission and the world it ran in, when there has been a
  submission.
\<close>

inductive reachable :: "py_runtime \<Rightarrow> (world \<times> pystr) option \<Rightarrow> app \<Rightarrow> bool"
  for rt :: py_runtime where
  start: "reachable rt None initial_app"
| run: "reachable rt cur a \<Longrightarrow>
        reachable rt (if submits w inp then Some (w, user_query inp) else cur)
          (rerun rt w inp a)"

text \<open>The research texts and chart codes that a run has put on the page, in order.\<close>

fun displayed :: "ui_event list \<Rightarrow> ui_event list" where
  "displayed [] = []"
| "displayed (StWrite v # es) = StWrite v # displayed es"
| "displayed (StCode v # es) = StCode v # displayed es"
| "displayed (e # es) = displayed es"

text \<open>
  The stored values are those of the current query: nothing is stored before the
  first submission, and afterwards the research text is the one produced for the
  current query when that is not empty, and the chart code the one generated from it
  when both are not empty.
\<close>

definition stored_for :: "py_runtime \<Rightarrow> (world \<times> pystr) option \<Rightarrow> app \<Rightarrow> bool" where
  "stored_for rt cur a \<longleftrightarrow>
     (case cur of
        None \<Rightarrow> research_data a = JNull \<and> chart_code a = JNull
      | Some (w, q) \<Rightarrow>
          q \<noteq> [] \<and>
          research_data a
            = (if truthy (research_result rt w q) then research_result rt w q else JNull) \<and>
          chart_code a
            = (if truthy (research_result rt w q) \<and>
                  truthy (chart_result rt w (research_result rt w q) q)
               then chart_result rt w (research_result rt w q) q else JNull))"

section \<open>The request URL that the HTTP library makes\<close>

text \<open>
  \<open>requests.get(url, ...)\<close> does not send \<open>url\<close> as it is: the library prepares it
  (\<open>PreparedRequest.prepare_url\<close> of requests 2.32, with \<open>parse_url\<close> of urllib3), and
  the prepared URL is the URL of the request.  This section models that preparation
  for the URLs of the search client, which all begin with
  \<open>https://api.duckduckgo.com/?\<close>.
\<close>

definition unreserved :: "nat \<Rightarrow> bool" where
  "unreserved c \<longleftrightarrow>
     (65 \<le> c \<and> c \<le> 90) \<or> (97 \<le> c \<and> c \<le> 122) \<or> (48 \<le> c \<and> c \<le> 57)
     \<or> c = 45 \<or> c = 46 \<or> c = 95 \<or> c = 126"

definition hex_digit :: "nat \<Rightarrow> nat" where
  "hex_digit d = (if d < 10 then 48 + d else 55 + d)"

definition percent_escape :: "nat \<Rightarrow> pystr" where
  "percent_escape b = [37, hex_digit (b div 16), hex_digit (b mod 16)]"

definition utf8 :: "nat \<Rightarrow> nat list" where
  "utf8 c =
     (if c < 128 then [c]
      else if c < 2048 then [192 + c div 64, 128 + c mod 64]
      else if c < 65536 then [224 + c div 4096, 128 + (c div 64) mod 64, 128 + c mod 64]
      else [240 + c div 262144, 128 + (c div 4096) mod 64, 128 + (c div 64) mod 64,
            128 + c mod 64])"

definition is_hex :: "nat \<Rightarrow> bool" where
  "is_hex c \<longleftrightarrow> (48 \<le> c \<and> c \<le> 57) \<or> (65 \<le> c \<and> c \<le> 70) \<or> (97 \<le> c \<and> c \<le> 102)"

definition hex_value :: "nat \<Rightarrow> nat" where
  "hex_value c = (if c \<le> 57 then c - 48 else if c \<le> 70 then c - 55 else c - 87)"

definition is_alnum :: "nat \<Rightarrow> bool" where
  "is_alnum c \<longleftrightarrow> (48 \<le> c \<and> c \<le> 57) \<or> (65 \<le> c \<and> c \<le> 90) \<or> (97 \<le> c \<and> c \<le> 122)"

definition to_upper :: "nat \<Rightarrow> nat" where
  "to_upper c = (if 97 \<le> c \<and> c \<le> 122 then c - 32 else c)"

text \<open>
  urllib3 first rewrites every percent-escape (\<open>%\<close> and two hexadecimal digits, found
  from left to right) in upper case, and counts them.
\<close>

fun upper_escapes :: "pystr \<Rightarrow> pystr" where
  "upper_escapes (c # h1 # h2 # rest) =
     (if c = 37 \<and> is_hex h1 \<and> is_hex h2
      then 37 # to_upper h1 # to_upper h2 # upper_escapes rest
      else c # upper_escapes (h1 # h2 # rest))"
| "upper_escapes (c # cs) = c # upper_escapes cs"
| "upper_escapes [] = []"

fun count_escapes :: "pystr \<Rightarrow> nat" where
  "count_escapes (c # h1 # h2 # rest) =
     (if c = 37 \<and> is_hex h1 \<and> is_hex h2
      then Suc (count_escapes rest)
      else count_escapes (h1 # h2 # rest))"
| "count_escapes (c # cs) = count_escapes cs"
| "count_escapes [] = 0"

text \<open>
  The characters urllib3 lets stand in a query and in a fragment: the unreserved
  ones and \<open>! $ & ' ( ) * + , ; = : @ / ?\<close>.
\<close>

definition query_char :: "nat \<Rightarrow> bool" where
  "query_char c \<longleftrightarrow>
     unreserved c \<or> c \<in> set [33, 36, 38, 39, 40, 41, 42, 43, 44, 59, 61, 58, 64, 47, 63]"

text \<open>
  \<open>_encode_invalid_chars\<close>: every byte of the UTF-8 form that may not stand is
  escaped.  A \<open>%\<close> stands only when every \<open>%\<close> of the component begins an escape.
\<close>

definition encode_invalid_chars :: "pystr \<Rightarrow> pystr" where
  "encode_invalid_chars component =
     (let uri_bytes = concat (map utf8 (upper_escapes component));
          is_percent_encoded = (count_escapes component = count_list uri_bytes 37)
      in concat (map (\<lambda>b. if (is_percent_encoded \<and> b = 37) \<or> (b < 128 \<and> query_char b)
                          then [b] else percent_escape b) uri_bytes))"

text \<open>
  \<open>unquote_unreserved\<close> of requests: an escape of an unreserved character is
  replaced by the character; two letters or digits after a \<open>%\<close> that are not
  hexadecimal make the URL invalid (\<open>None\<close>).  The URL that reaches this function is
  ASCII, and \<open>is_alnum\<close> is Python's \<open>isalnum\<close> on ASCII.
\<close>

fun unquote_unreserved :: "pystr \<Rightarrow> pystr option" where
  "unquote_unreserved (c # h1 # h2 # rest) =
     (if c = 37 \<and> is_alnum h1 \<and> is_alnum h2
      then (if is_hex h1 \<and> is_hex h2
            then (if unreserved (16 * hex_value h1 + hex_value h2)
                  then map_option ((#) (16 * hex_value h1 + hex_value h2))
                         (unquote_unreserved rest)
                  else map_option ((#) c) (unquote_unreserved (h1 # h2 # rest)))
            else None)
      else map_option ((#) c) (unquote_unreserved (h1 # h2 # rest)))"
| "unquote_unreserved (c # cs) = map_option ((#) c) (unquote_unreserved cs)"
| "unquote_unreserved [] = Some []"

text \<open>\<open>urllib.parse.quote(s, safe)\<close>.\<close>

definition quote :: "pystr \<Rightarrow> pystr \<Rightarrow> pystr" where
  "quote safe s =
     concat (map (\<lambda>c. if c < 128 \<and> (unreserved c \<or> c \<in> set safe) then [c]
                       else concat (map percent_escape (utf8 c))) s)"

text \<open>
  \<open>requote_uri\<close>, with its two lists of safe characters,
  \<open>!#$%&'()*+,/:;=?@[]~\<close> and the same without \<open>%\<close>.
\<close>

definition requote_uri :: "pystr \<Rightarrow> pystr" where
  "requote_uri uri =
     (case unquote_unreserved uri of
        Some u \<Rightarrow>
          quote [33, 35, 36, 37, 38, 39, 40, 41, 42, 43, 44, 47, 58, 59, 61, 63, 64, 91, 93,
                 126] u
      | None \<Rightarrow>
          quote [33, 35, 36, 38, 39, 40, 41, 42, 43, 44, 47, 58, 59, 61, 63, 64, 91, 93, 126]
            uri)"

text \<open>
  \<open>prepare_url\<close> on a URL that begins with \<open>https://api.duckduckgo.com/?\<close>: scheme,
  host and path stay; what follows the \<open>?\<close> is cut at the first \<open>#\<close> into query and
  fragment, each is encoded when it is not empty, the URL is put together again
  (an empty query or fragment is left out with its mark) and re-quoted.  Other URLs
  are outside this model (\<open>None\<close>).
\<close>

definition prepare_url :: "pystr \<Rightarrow> pystr option" where
  "prepare_url url =
     (let base = lit ''https://api.duckduckgo.com/''
      in if starts_with url (base @ [63])
         then
           (let rest = drop (length base + 1) url;
                query = takeWhile (\<lambda>c. c \<noteq> 35) rest;
                fragment = drop 1 (dropWhile (\<lambda>c. c \<noteq> 35) rest)
            in Some (requote_uri
                 (base
                  @ (if query = [] then [] else [63] @ encode_invalid_chars query)
                  @ (if fragment = [] then [] else [35] @ encode_invalid_chars fragment))))
         else None)"

text \<open>
  How the library sends one character of a query that has neither \<open>%\<close> nor \<open>#\<close>
  (shown below): as it is when it may stand in a query, escaped otherwise.
\<close>

definition sent_as :: "nat \<Rightarrow> pystr" where
  "sent_as c =
     (if c < 128 \<and> query_char c then [c] else concat (map percent_escape (utf8 c)))"

text \<open>
  The characters a query must be free of for the library's form to be the
  URL-encoded one: those it lets stand although they are not unreserved, and
  \<open>#\<close> and \<open>%\<close>.
\<close>

definition url_delimiter :: "nat \<Rightarrow> bool" where
  "url_delimiter c \<longleftrightarrow>
     c \<in> set [33, 36, 38, 39, 40, 41, 42, 43, 44, 59, 61, 58, 64, 47, 63, 35, 37]"

section \<open>The specification's wording, for comparison\<close>

text \<open>
  The query URL-encoded: every character other than an unreserved one (letters,
  digits, \<open>-\<close>, \<open>.\<close>, \<open>_\<close>, \<open>~\<close>) is replaced by the percent-escapes of its UTF-8 bytes.
\<close>

definition spec_url_encode :: "pystr \<Rightarrow> pystr" where
  "spec_url_encode s =
     concat (map (\<lambda>c. if unreserved c then [c] else concat (map percent_escape (utf8 c))) s)"

definition spec_search_url :: "pystr \<Rightarrow> pystr" where
  "spec_search_url query =
     lit ''https://api.duckduckgo.com/?q='' @ spec_url_encode query
       @ lit ''&format=json&no_redirect=1''"

text \<open>
  The text for an HTTP 200 search response in the specification's words: the abstract
  if it is present (there and not empty), then the text fields of up to three related
  topics, joined by blank lines; the placeholder when there is neither.
\<close>

definition spec_abstract_part :: "py_runtime \<Rightarrow> json \<Rightarrow> pystr list" where
  "spec_abstract_part rt data =
     (case data of
        JObj kvs \<Rightarrow>
          (case map_of kvs (lit ''AbstractText'') of
             Some v \<Rightarrow> if truthy v then [lit ''Summary: '' @ py_str rt v] else []
           | None \<Rightarrow> [])
      | _ \<Rightarrow> [])"

definition spec_topic_text :: "py_runtime \<Rightarrow> json \<Rightarrow> pystr list" where
  "spec_topic_text rt topic =
     (case topic of
        JObj kvs \<Rightarrow>
          (case map_of kvs (lit ''Text'') of
             Some v \<Rightarrow> [lit ''Related: '' @ py_str rt v]
           | None \<Rightarrow> [])
      | _ \<Rightarrow> [])"

definition spec_related_part :: "py_runtime \<Rightarrow> json \<Rightarrow> pystr list" where
  "spec_related_part rt data =
     (case data of
        JObj kvs \<Rightarrow>
          (case map_of kvs (lit ''RelatedTopics'') of
             Some (JArr topics) \<Rightarrow> concat (map (spec_topic_text rt) (take 3 topics))
           | _ \<Rightarrow> [])
      | _ \<Rightarrow> [])"

definition spec_search_text :: "py_runtime \<Rightarrow> pystr \<Rightarrow> json \<Rightarrow> pystr" where
  "spec_search_text rt query data =
     (let parts = spec_abstract_part rt data @ spec_related_part rt data
      in if parts = [] then lit ''Basic search completed for: '' @ query
         else join [10, 10] parts)"

text \<open>
  The bodies from which the search client can read its fields without an exception:
  an object whose \<open>RelatedTopics\<close> is absent, a list or a string; a list or a string
  that does not contain the two field names.
\<close>

definition can_extract :: "json \<Rightarrow> bool" where
  "can_extract data =
     (case data of
        JObj kvs \<Rightarrow>
          (case map_of kvs (lit ''RelatedTopics'') of
             None \<Rightarrow> True
           | Some (JArr topics) \<Rightarrow> True
           | Some (JStr s) \<Rightarrow> True
           | Some _ \<Rightarrow> False)
      | JArr xs \<Rightarrow>
          JStr (lit ''AbstractText'') \<notin> set xs \<and> JStr (lit ''RelatedTopics'') \<notin> set xs
      | JStr s \<Rightarrow>
          \<not> substring_in (lit ''AbstractText'') s \<and> \<not> substring_in (lit ''RelatedTopics'') s
      | _ \<Rightarrow> False)"

text \<open>
  A well-formed chat-completion body: an object whose \<open>choices\<close> is a list, with a
  first element that is an object whose \<open>message\<close> is an object with a \<open>content\<close>.
\<close>

definition well_formed_chat :: "json \<Rightarrow> bool" where
  "well_formed_chat result =
     (case result of
        JObj kvs \<Rightarrow>
          (case map_of kvs (lit ''choices'') of
             Some (JArr (JObj choice # rest)) \<Rightarrow>
               (case map_of choice (lit ''message'') of
                  Some (JObj message) \<Rightarrow> map_of message (lit ''content'') \<noteq> None
                | _ \<Rightarrow> False)
           | _ \<Rightarrow> False)
      | _ \<Rightarrow> False)"

section \<open>Example inputs\<close>

definition demo_runtime :: py_runtime where
  "demo_runtime =
     \<lparr>str_value = (\<lambda>v. lit ''<value>''),
      str_exn =
        (\<lambda>e. case e of
           JSONDecodeError m \<Rightarrow> m
         | RequestException m \<Rightarrow> m
         | SecretNotFoundError m \<Rightarrow> m
         | _ \<Rightarrow> lit ''<lookup failed>'')\<rparr>"

definition demo_key_env :: "pystr \<Rightarrow> pystr option" where
  "demo_key_env = (\<lambda>k. if k = lit ''OPENAI_API_KEY'' then Some (lit ''sk-test'') else None)"

text \<open>A world whose network is down.\<close>

definition offline_world :: world where
  "offline_world =
     \<lparr>environ = demo_key_env, secrets = Inr (\<lambda>k. None),
      http = (\<lambda>r. Raised (RequestException (lit ''Connection timed out'')))\<rparr>"

text \<open>A world whose servers answer every request with the given status and body.\<close>

definition fixed_world :: "int \<Rightarrow> py_exn + json \<Rightarrow> world" where
  "fixed_world status_code body =
     \<lparr>environ = demo_key_env, secrets = Inr (\<lambda>k. None),
      http = (\<lambda>r. Response status_code body)\<rparr>"

definition not_json :: "py_exn + json" where
  "not_json = Inl (JSONDecodeError (lit ''Expecting value: line 1 column 1 (char 0)''))"

text \<open>A world without the credential.\<close>

definition keyless_world :: world where
  "keyless_world =
     \<lparr>environ = (\<lambda>k. None), secrets = Inr (\<lambda>k. None),
      http = (\<lambda>r. Response 200 not_json)\<rparr>"

text \<open>A world without the credential and without a secrets file.\<close>

definition no_secrets_world :: world where
  "no_secrets_world =
     \<lparr>environ = (\<lambda>k. None),
      secrets = Inl (SecretNotFoundError (lit ''No secrets found.'')),
      http = (\<lambda>r. Response 200 not_json)\<rparr>"

text \<open>A search answer with an abstract and five related topics, the second a group.\<close>

definition demo_search_body :: json where
  "demo_search_body =
     JObj [(lit ''AbstractText'', JStr (lit ''GDP of the UK'')),
           (lit ''RelatedTopics'',
            JArr [JObj [(lit ''Text'', JStr (lit ''Economy''))],
                  JObj [(lit ''Name'', JStr (lit ''Group''))],
                  JObj [(lit ''Text'', JStr (lit ''Growth''))],
                  JObj [(lit ''Text'', JStr (lit ''Trade''))],
                  JObj [(lit ''Text'', JStr (lit ''Debt''))]])]"

text \<open>A search answer with an abstract and a null list of related topics.\<close>

definition null_topics_body :: json where
  "null_topics_body =
     JObj [(lit ''AbstractText'', JStr (lit ''GDP of the UK'')),
           (lit ''RelatedTopics'', JNull)]"

definition demo_chat_body :: json where
  "demo_chat_body =
     JObj [(lit ''id'', JStr (lit ''chatcmpl-1'')),
           (lit ''choices'',
            JArr [JObj [(lit ''index'', JInt 0),
                        (lit ''message'',
                         JObj [(lit ''role'', JStr (lit ''assistant'')),
                               (lit ''content'', JStr (lit ''plt.show()''))])]])]"

text \<open>A world in which both services answer well.\<close>

definition demo_world :: world where
  "demo_world =
     \<lparr>environ = demo_key_env, secrets = Inr (\<lambda>k. None),
      http = (\<lambda>r. case r of
                GET url timeout \<Rightarrow> Response 200 (Inr demo_search_body)
              | POST url headers body timeout \<Rightarrow> Response 200 (Inr demo_chat_body))\<rparr>"

definition demo_input :: ui_input where
  "demo_input =
     \<lparr>example_clicked = (\<lambda>q. False),
      user_query = lit ''UK GDP past 3 years line chart'',
      generate_clicked = True\<rparr>"

definition empty_input :: ui_input where
  "empty_input = \<lparr>example_clicked = (\<lambda>q. False), user_query = [], generate_clicked = True\<rparr>"

section \<open>The search client never fails\<close>

lemma lit_eq_Nil [simp]: "lit s = [] \<longleftrightarrow> s = []"
  by (simp add: lit_def)

lemma join_nonempty: "xs \<noteq> [] \<Longrightarrow> \<forall>x\<in>set xs. x \<noteq> [] \<Longrightarrow> join sep xs \<noteq> []"
  by (induction sep xs rule: join.induct) auto

lemma related_loop_nonempty:
  "\<forall>x\<in>set rs. x \<noteq> [] \<Longrightarrow> \<forall>x\<in>set (related_loop rt ts rs). x \<noteq> []"
proof (induction ts arbitrary: rs)
  case Nil
  then show ?case by simp
next
  case (Cons t ts)
  show ?case
    using Cons.prems by (auto intro!: Cons.IH split: json.splits option.splits)
qed

lemma results_text_nonempty:
  "\<forall>x\<in>set rs. x \<noteq> [] \<Longrightarrow>
   (if rs \<noteq> [] then join sep rs else lit ''Basic search completed for: '' @ q) \<noteq> []"
  by (simp add: join_nonempty)

lemma ebind_Inr: "ebind m f = Inr t \<longleftrightarrow> (\<exists>x. m = Inr x \<and> f x = Inr t)"
  by (cases m) (simp_all add: ebind_def)

lemma extract_results_nonempty:
  assumes "extract_results rt q d = Inr t"
  shows "t \<noteq> []"
proof -
  from assms obtain use_abstract rs0 has_related rs where
    s3: "(if use_abstract
          then ebind (subscript d (lit ''AbstractText''))
                 (\<lambda>v. Inr [lit ''Summary: '' @ py_str rt v])
          else Inr []) = Inr rs0"
    and s5: "(if has_related
          then ebind (subscript d (lit ''RelatedTopics'')) (\<lambda>v.
               ebind (first_three v) (\<lambda>topics. Inr (related_loop rt topics rs0)))
          else Inr rs0) = Inr rs"
    and t: "t = (if rs \<noteq> [] then join [10, 10] rs
                 else lit ''Basic search completed for: '' @ q)"
    unfolding extract_results_def ebind_Inr by auto
  from s3 have rs0: "\<forall>x\<in>set rs0. x \<noteq> []"
    by (auto simp: ebind_Inr split: if_splits)
  from s5 rs0 have rs: "\<forall>x\<in>set rs. x \<noteq> []"
    by (auto simp: ebind_Inr split: if_splits dest: related_loop_nonempty)
  show ?thesis unfolding t using rs by (rule results_text_nonempty)
qed

lemma search_web_nonempty: "fst (search_web rt w q a) \<noteq> []"
  unfolding search_web_def request_def
  by (auto simp: Let_def ebind_def search_status_fallback_def search_error_fallback_def
      split: http_outcome.splits sum.splits dest: extract_results_nonempty)

text \<open>
  Claim C1.  \<open>search_web\<close> is a total function of the model: every exception of its
  \<open>try\<close> block is a value that the handler turns into a string.  For every query,
  world and page state the returned text is not empty.  When the request raises (a
  transport error or a timeout), or the status is 200 and the body is not JSON, the
  text is the fallback of the \<open>except\<close> branch; when the status is anything but 200,
  so for every non-2xx status, whatever the body, it is the fallback of the \<open>else\<close>
  branch.
\<close>

theorem search_web_fallback:
  "fst (search_web rt w q a) \<noteq> [] \<and>
   (\<forall>e. http w (GET (search_url q) 10) = Raised e \<longrightarrow>
      fst (search_web rt w q a) = search_error_fallback q) \<and>
   (\<forall>e. http w (GET (search_url q) 10) = Response 200 (Inl e) \<longrightarrow>
      fst (search_web rt w q a) = search_error_fallback q) \<and>
   (\<forall>c b. http w (GET (search_url q) 10) = Response c b \<and> c \<noteq> 200 \<longrightarrow>
      fst (search_web rt w q a) = search_status_fallback q)"
  using search_web_nonempty[of rt w q a]
  by (simp add: search_web_def request_def ebind_def)

theorem search_web_fallback_witness:
  "fst (search_web demo_runtime offline_world (lit ''UK GDP'') initial_app)
     = search_error_fallback (lit ''UK GDP'') \<and>
   fst (search_web demo_runtime (fixed_world 200 not_json) (lit ''UK GDP'') initial_app)
     = search_error_fallback (lit ''UK GDP'') \<and>
   fst (search_web demo_runtime (fixed_world 503 not_json) (lit ''UK GDP'') initial_app)
     = search_status_fallback (lit ''UK GDP'') \<and>
   search_error_fallback (lit ''UK GDP'') \<noteq> [] \<and>
   search_status_fallback (lit ''UK GDP'') \<noteq> []"
  using search_web_fallback [of demo_runtime offline_world "lit ''UK GDP''" initial_app]
    search_web_fallback [of demo_runtime "fixed_world 200 not_json" "lit ''UK GDP''" initial_app]
    search_web_fallback [of demo_runtime "fixed_world 503 not_json" "lit ''UK GDP''" initial_app]
  by (simp add: offline_world_def fixed_world_def not_json_def
      search_error_fallback_def search_status_fallback_def)

section \<open>The text made from a search answer\<close>

lemma related_loop_append:
  "related_loop rt ts rs = rs @ concat (map (spec_topic_text rt) ts)"
  by (induction ts arbitrary: rs)
     (auto simp: spec_topic_text_def split: json.splits option.splits)

lemma length_topic_text: "length (spec_topic_text rt t) \<le> 1"
  by (simp add: spec_topic_text_def split: json.splits option.splits)

lemma length_concat_topic_text:
  "length (concat (map (spec_topic_text rt) ts)) \<le> length ts"
proof (induction ts)
  case Nil
  then show ?case by simp
next
  case (Cons t ts)
  with length_topic_text [of rt t] show ?case by simp
qed

lemma spec_related_part_le3: "length (spec_related_part rt data) \<le> 3"
proof -
  have "length (concat (map (spec_topic_text rt) (take 3 ts))) \<le> 3" for ts
    using length_concat_topic_text [of rt "take 3 ts"] by simp
  then show ?thesis
    by (simp add: spec_related_part_def split: json.splits option.splits)
qed

lemma extract_results_object:
  assumes "map_of kvs (lit ''RelatedTopics'') = None \<or>
           (\<exists>ts. map_of kvs (lit ''RelatedTopics'') = Some (JArr ts)) \<or>
           (\<exists>s. map_of kvs (lit ''RelatedTopics'') = Some (JStr s))"
  shows "extract_results rt q (JObj kvs) = Inr (spec_search_text rt q (JObj kvs))"
proof -
  have str: "concat (map (spec_topic_text rt \<circ> (\<lambda>c. JStr [c])) cs) = []" for cs
    by (induction cs) (simp_all add: spec_topic_text_def)
  show ?thesis
    using assms
    by (cases "map_of kvs (lit ''AbstractText'')")
       (auto simp: extract_results_def ebind_def spec_search_text_def spec_abstract_part_def
          spec_related_part_def related_loop_append str Let_def)
qed

lemma extract_results_can:
  assumes "can_extract data"
  shows "extract_results rt q data = Inr (spec_search_text rt q data)"
proof (cases data)
  case (JObj kvs)
  with assms have "map_of kvs (lit ''RelatedTopics'') = None \<or>
      (\<exists>ts. map_of kvs (lit ''RelatedTopics'') = Some (JArr ts)) \<or>
      (\<exists>s. map_of kvs (lit ''RelatedTopics'') = Some (JStr s))"
    by (auto simp: can_extract_def split: option.splits json.splits)
  from extract_results_object [OF this] JObj show ?thesis by simp
next
  case (JArr xs)
  with assms show ?thesis
    by (simp add: can_extract_def extract_results_def ebind_def spec_search_text_def
        spec_abstract_part_def spec_related_part_def)
next
  case (JStr s)
  with assms show ?thesis
    by (simp add: can_extract_def extract_results_def ebind_def spec_search_text_def
        spec_abstract_part_def spec_related_part_def)
qed (use assms in \<open>simp_all add: can_extract_def\<close>)

lemma extract_results_cannot:
  assumes "\<not> can_extract data"
  shows "\<exists>e. extract_results rt q data = Inl e"
proof (cases data)
  case (JObj kvs)
  with assms obtain v where v: "map_of kvs (lit ''RelatedTopics'') = Some v"
    and f: "first_three v = Inl (TypeError v)"
    by (auto simp: can_extract_def split: option.splits json.splits)
  show ?thesis
    unfolding JObj
    by (cases "map_of kvs (lit ''AbstractText'')")
       (simp_all add: extract_results_def ebind_def v f)
next
  case (JArr xs)
  with assms show ?thesis
    by (auto simp: can_extract_def extract_results_def ebind_def)
next
  case (JStr s)
  with assms show ?thesis
    by (auto simp: can_extract_def extract_results_def ebind_def)
qed (simp_all add: extract_results_def ebind_def)

text \<open>
  Claim C7, as the code has it, for every response with status 200.  When the body is
  JSON from which the fields can be read (\<open>can_extract\<close>), the returned text is: the
  abstract behind \<open>Summary: \<close> when \<open>AbstractText\<close> is there and not empty, then, behind
  \<open>Related: \<close>, the \<open>Text\<close> of each of the first three related topics that is an object
  with that field (so at most three), joined by blank lines; and
  \<open>Basic search completed for: \<close> with the query when there is no such part.  When
  the body is not JSON, or reading the fields raises, the returned text is the
  fallback of the \<open>except\<close> branch.
\<close>

theorem search_web_200:
  assumes "http w (GET (search_url q) 10) = Response 200 body"
  shows "fst (search_web rt w q a)
           = (case body of
                Inl e \<Rightarrow> search_error_fallback q
              | Inr data \<Rightarrow>
                  if can_extract data then spec_search_text rt q data
                  else search_error_fallback q) \<and>
         length (spec_related_part rt d) \<le> 3"
proof (cases body)
  case (Inl e)
  with assms spec_related_part_le3 show ?thesis
    by (simp add: search_web_def request_def ebind_def)
next
  case (Inr data)
  show ?thesis
  proof (cases "can_extract data")
    case True
    with assms Inr extract_results_can [OF True, of rt q] spec_related_part_le3 show ?thesis
      by (simp add: search_web_def request_def ebind_def)
  next
    case False
    from extract_results_cannot [OF False, of rt q] obtain e
      where "extract_results rt q data = Inl e" ..
    with assms Inr False spec_related_part_le3 show ?thesis
      by (simp add: search_web_def request_def ebind_def)
  qed
qed

theorem search_web_200_witness:
  "fst (search_web demo_runtime demo_world (lit ''UK GDP'') initial_app)
     = lit ''Summary: GDP of the UK'' @ [10, 10] @ lit ''Related: Economy'' @ [10, 10]
       @ lit ''Related: Growth'' \<and>
   fst (search_web demo_runtime (fixed_world 200 (Inr (JArr []))) (lit ''UK GDP'') initial_app)
     = lit ''Basic search completed for: '' @ lit ''UK GDP'' \<and>
   fst (search_web demo_runtime (fixed_world 200 (Inr (JInt 7))) (lit ''UK GDP'') initial_app)
     = search_error_fallback (lit ''UK GDP'')"
proof -
  have h1: "http demo_world (GET (search_url (lit ''UK GDP'')) 10)
      = Response 200 (Inr demo_search_body)"
    by (simp add: demo_world_def)
  have h2: "http (fixed_world 200 b) (GET (search_url (lit ''UK GDP'')) 10) = Response 200 b" for b
    by (simp add: fixed_world_def)
  have c1: "can_extract demo_search_body"
    by (simp add: can_extract_def demo_search_body_def lit_def)
  have c2: "can_extract (JArr [])" "\<not> can_extract (JInt 7)"
    by (simp_all add: can_extract_def)
  have t1: "spec_search_text demo_runtime (lit ''UK GDP'') demo_search_body
      = lit ''Summary: GDP of the UK'' @ [10, 10] @ lit ''Related: Economy'' @ [10, 10]
        @ lit ''Related: Growth''"
    by (simp add: spec_search_text_def spec_abstract_part_def spec_related_part_def
        spec_topic_text_def py_str_def demo_search_body_def lit_def)
  have t2: "spec_search_text demo_runtime (lit ''UK GDP'') (JArr [])
      = lit ''Basic search completed for: '' @ lit ''UK GDP''"
    by (simp add: spec_search_text_def spec_abstract_part_def spec_related_part_def)
  from search_web_200 [OF h1, where rt = demo_runtime and a = initial_app]
    search_web_200 [OF h2 [of "Inr (JArr [])"], where rt = demo_runtime and a = initial_app]
    search_web_200 [OF h2 [of "Inr (JInt 7)"], where rt = demo_runtime and a = initial_app]
  show ?thesis
    by (simp add: c1 c2 t1 t2)
qed

text \<open>
  Claim C7, as it is stated, fails for a 200 response whose body has an abstract and
  \<open>"RelatedTopics": null\<close>: slicing \<open>None\<close> raises, the handler returns the fallback
  of the \<open>except\<close> branch, and the abstract that was present is not in the text.
\<close>

theorem search_web_null_topics:
  "fst (search_web demo_runtime (fixed_world 200 (Inr null_topics_body)) (lit ''UK GDP'') initial_app)
     = lit ''Web search for '' @ [39] @ lit ''UK GDP'' @ [39]
       @ lit '' completed. Manual research may be needed for specific data.'' \<and>
   spec_search_text demo_runtime (lit ''UK GDP'') null_topics_body = lit ''Summary: GDP of the UK'' \<and>
   \<not> substring_in (lit ''GDP of the UK'')
       (fst (search_web demo_runtime (fixed_world 200 (Inr null_topics_body)) (lit ''UK GDP'')
          initial_app)) \<and>
   fst (search_web demo_runtime (fixed_world 200 (Inr null_topics_body)) (lit ''UK GDP'') initial_app)
     \<noteq> spec_search_text demo_runtime (lit ''UK GDP'') null_topics_body"
  by (simp add: search_web_def request_def fixed_world_def null_topics_body_def ebind_def
      extract_results_def search_error_fallback_def spec_search_text_def spec_abstract_part_def
      spec_related_part_def py_str_def lit_def)

section \<open>Properties of the chat-completion wrapper\<close>

lemma get_api_key_absent:
  "environ w (lit ''OPENAI_API_KEY'') = None \<Longrightarrow> secrets w = Inr store \<Longrightarrow>
   store (lit ''OPENAI_API_KEY'') = None \<Longrightarrow> get_api_key w = Inr (JStr [])"
  by (simp add: get_api_key_def getenv_def secrets_get_def)

lemma get_api_key_unreadable:
  "environ w (lit ''OPENAI_API_KEY'') = None \<Longrightarrow> secrets w = Inl e \<Longrightarrow>
   get_api_key w = Inl e"
  by (simp add: get_api_key_def getenv_def secrets_get_def)

lemma credential_Some:
  "get_api_key w = Inr k \<Longrightarrow> truthy k \<Longrightarrow> credential w = Some k"
  by (simp add: credential_def)

lemma credential_SomeD:
  "credential w = Some k \<Longrightarrow> get_api_key w = Inr k \<and> truthy k"
  by (simp add: credential_def split: sum.splits if_splits)

text \<open>
  When the credential is absent and the secrets store can be read, the wrapper returns
  the key-not-found message and sends nothing.
\<close>

lemma call_openai_api_without_key:
  assumes "environ w (lit ''OPENAI_API_KEY'') = None"
    and "secrets w = Inr store"
    and "store (lit ''OPENAI_API_KEY'') = None"
  shows "call_openai_api rt w messages a = (JStr key_not_found_message, a)"
  using get_api_key_absent [OF assms] by (simp add: call_openai_api_def)

lemma call_openai_api_unreadable_store:
  assumes "environ w (lit ''OPENAI_API_KEY'') = None"
    and "secrets w = Inl e"
  shows "call_openai_api rt w messages a
           = (JStr (lit ''Error calling OpenAI API: '' @ str_exn rt e), a)"
  using get_api_key_unreadable [OF assms] by (simp add: call_openai_api_def)

text \<open>
  The same lookup in \<open>main\<close> is outside any \<open>try\<close>: when it raises, the run ends
  with the exception, before the key-not-found message of the page.
\<close>

lemma main_unreadable_store:
  assumes "environ w (lit ''OPENAI_API_KEY'') = None"
    and "secrets w = Inl e"
  shows "main rt w inp a
           = emit (StException e) (sidebar inp (emit (StMarkdown main_header_html) a))"
  using get_api_key_unreadable [OF assms] by (simp add: main_def Let_def)

text \<open>
  Claim C2, at the input where the code departs from it: no \<open>OPENAI_API_KEY\<close> in the
  environment and no secrets file.  The lookup in the secrets store raises, the
  handler of \<open>call_openai_api\<close> returns the text of that exception behind
  \<open>Error calling OpenAI API: \<close>, and this string has no key-not-found indicator.
  No request is sent.  With a secrets store that can be read and lacks the key, the
  same call returns the key-not-found message.
\<close>

theorem call_openai_api_no_secrets_file:
  "environ no_secrets_world (lit ''OPENAI_API_KEY'') = None \<and>
   secrets no_secrets_world = Inl (SecretNotFoundError (lit ''No secrets found.'')) \<and>
   call_openai_api demo_runtime no_secrets_world (JArr []) initial_app
     = (JStr (lit ''Error calling OpenAI API: '' @ lit ''No secrets found.''), initial_app) \<and>
   \<not> substring_in (lit ''key not found'')
       (lit ''Error calling OpenAI API: '' @ lit ''No secrets found.'') \<and>
   call_openai_api demo_runtime keyless_world (JArr []) initial_app
     = (JStr key_not_found_message, initial_app) \<and>
   substring_in (lit ''key not found'') key_not_found_message"
proof -
  have e: "environ no_secrets_world (lit ''OPENAI_API_KEY'') = None"
    and s: "secrets no_secrets_world = Inl (SecretNotFoundError (lit ''No secrets found.''))"
    by (simp_all add: no_secrets_world_def)
  have "call_openai_api demo_runtime no_secrets_world (JArr []) initial_app
      = (JStr (lit ''Error calling OpenAI API: '' @ lit ''No secrets found.''), initial_app)"
    using call_openai_api_unreadable_store [OF e s, of demo_runtime "JArr []" initial_app]
    by (simp add: demo_runtime_def)
  moreover have "\<not> substring_in (lit ''key not found'')
      (lit ''Error calling OpenAI API: '' @ lit ''No secrets found.'')"
    by (simp add: lit_def)
  moreover have "call_openai_api demo_runtime keyless_world (JArr []) initial_app
      = (JStr key_not_found_message, initial_app)"
    by (rule call_openai_api_without_key [where store = "\<lambda>k. None"])
       (simp_all add: keyless_world_def)
  moreover have "substring_in (lit ''key not found'') key_not_found_message"
    by (simp add: key_not_found_message_def lit_def)
  ultimately show ?thesis using e s by simp
qed

text \<open>
  Claim C3.  With a credential, when the chat endpoint answers with status 200 and a
  JSON object whose \<open>choices\<close> is a list, whose first element is an object with a
  \<open>message\<close> object that has a \<open>content\<close>, \<open>call_openai_api\<close> returns exactly that
  content.
\<close>

theorem call_openai_api_pass_through:
  assumes "get_api_key w = Inr api_key" and "truthy api_key"
    and "http w (chat_request rt api_key messages) = Response 200 (Inr (JObj body))"
    and "map_of body (lit ''choices'') = Some (JArr (JObj choice # rest))"
    and "map_of choice (lit ''message'') = Some (JObj message)"
    and "map_of message (lit ''content'') = Some content"
  shows "fst (call_openai_api rt w messages a) = content"
  using assms
  by (simp add: call_openai_api_def request_def ebind_def first_choice_content_def)

lemma demo_key: "get_api_key demo_world = Inr (JStr (lit ''sk-test''))"
  by (simp add: get_api_key_def getenv_def demo_world_def demo_key_env_def)

lemma demo_credential: "credential demo_world = Some (JStr (lit ''sk-test''))"
  by (simp add: credential_def demo_key)

theorem call_openai_api_pass_through_witness:
  "fst (call_openai_api demo_runtime demo_world (JArr []) initial_app) = JStr (lit ''plt.show()'')"
proof -
  let ?message = "[(lit ''role'', JStr (lit ''assistant'')),
                   (lit ''content'', JStr (lit ''plt.show()''))]"
  let ?choice = "[(lit ''index'', JInt 0), (lit ''message'', JObj ?message)]"
  let ?body = "[(lit ''id'', JStr (lit ''chatcmpl-1'')), (lit ''choices'', JArr [JObj ?choice])]"
  have k: "truthy (JStr (lit ''sk-test''))"
    by simp
  have r: "http demo_world (chat_request demo_runtime (JStr (lit ''sk-test'')) (JArr []))
      = Response 200 (Inr (JObj ?body))"
    by (simp add: demo_world_def chat_request_def demo_chat_body_def)
  have c: "map_of ?body (lit ''choices'') = Some (JArr (JObj ?choice # []))"
    by (simp add: lit_def)
  have m: "map_of ?choice (lit ''message'') = Some (JObj ?message)"
    by (simp add: lit_def)
  have t: "map_of ?message (lit ''content'') = Some (JStr (lit ''plt.show()''))"
    by (simp add: lit_def)
  show ?thesis
    by (rule call_openai_api_pass_through [OF demo_key k r c m t])
qed

lemma subscript_Inr:
  "subscript v k = Inr x \<longleftrightarrow> (\<exists>kvs. v = JObj kvs \<and> map_of kvs k = Some x)"
  by (cases v) (simp_all split: option.splits)

lemma subscript0_Inr:
  "subscript0 v = Inr x \<longleftrightarrow>
     (\<exists>xs. v = JArr (x # xs)) \<or> (\<exists>c cs. v = JStr (c # cs) \<and> x = JStr [c])"
  by (cases v) (auto split: list.splits)

lemma first_choice_content_Inr:
  "first_choice_content result = Inr v \<longleftrightarrow>
     (\<exists>kvs choice rest message.
        result = JObj kvs \<and> map_of kvs (lit ''choices'') = Some (JArr (JObj choice # rest)) \<and>
        map_of choice (lit ''message'') = Some (JObj message) \<and>
        map_of message (lit ''content'') = Some v)"
  unfolding first_choice_content_def ebind_Inr subscript_Inr subscript0_Inr
  by auto

lemma first_choice_content_fails:
  assumes "\<not> well_formed_chat result"
  shows "\<exists>e. first_choice_content result = Inl e"
proof (cases "first_choice_content result")
  case (Inl e)
  then show ?thesis by blast
next
  case (Inr v)
  then obtain kvs choice rest message where
    "result = JObj kvs" "map_of kvs (lit ''choices'') = Some (JArr (JObj choice # rest))"
    "map_of choice (lit ''message'') = Some (JObj message)"
    "map_of message (lit ''content'') = Some v"
    unfolding first_choice_content_Inr by blast
  then have "well_formed_chat result"
    by (simp add: well_formed_chat_def)
  with assms show ?thesis by simp
qed

text \<open>
  Claim C10.  With a credential, when the chat endpoint answers with status 200 and a
  body that is not JSON or not well-formed, the lookup raises an exception \<open>e\<close>, and
  \<open>call_openai_api\<close> returns the string \<open>Error calling OpenAI API: \<close> followed by the
  text of \<open>e\<close>.  The wrapper is a total function of the model, so it returns a value
  for every response.
\<close>

theorem call_openai_api_malformed_200:
  assumes "get_api_key w = Inr api_key" and "truthy api_key"
    and "http w (chat_request rt api_key messages) = Response 200 body"
    and "case body of Inl e \<Rightarrow> True | Inr result \<Rightarrow> \<not> well_formed_chat result"
  shows "\<exists>e. ebind body first_choice_content = Inl e \<and>
             fst (call_openai_api rt w messages a)
               = JStr (lit ''Error calling OpenAI API: '' @ str_exn rt e)"
proof -
  from assms(4) obtain e where e: "ebind body first_choice_content = Inl e"
    by (cases body) (auto simp: ebind_def dest: first_choice_content_fails)
  with assms(1-3) show ?thesis
    by (simp add: call_openai_api_def request_def)
qed

theorem call_openai_api_malformed_200_witness:
  "fst (call_openai_api demo_runtime (fixed_world 200 (Inr (JObj [(lit ''choices'', JArr [])])))
         (JArr []) initial_app)
     = JStr (lit ''Error calling OpenAI API: '' @ lit ''<lookup failed>'') \<and>
   fst (call_openai_api demo_runtime (fixed_world 200 not_json) (JArr []) initial_app)
     = JStr (lit ''Error calling OpenAI API: ''
         @ lit ''Expecting value: line 1 column 1 (char 0)'')"
proof -
  let ?b = "Inr (JObj [(lit ''choices'', JArr [])]) :: py_exn + json"
  have g: "get_api_key (fixed_world 200 b) = Inr (JStr (lit ''sk-test''))" for b
    by (simp add: get_api_key_def getenv_def fixed_world_def demo_key_env_def)
  have k: "truthy (JStr (lit ''sk-test''))"
    by simp
  have r: "http (fixed_world 200 b)
      (chat_request demo_runtime (JStr (lit ''sk-test'')) (JArr [])) = Response 200 b" for b
    by (simp add: fixed_world_def)
  have m1: "case ?b of Inl e \<Rightarrow> True | Inr result \<Rightarrow> \<not> well_formed_chat result"
    by (simp add: well_formed_chat_def)
  have m2: "case not_json of Inl e \<Rightarrow> True | Inr result \<Rightarrow> \<not> well_formed_chat result"
    by (simp add: not_json_def)
  have e1: "ebind ?b first_choice_content = Inl (IndexError (JArr []))"
    by (simp add: ebind_def first_choice_content_def)
  have e2: "ebind not_json first_choice_content
      = Inl (JSONDecodeError (lit ''Expecting value: line 1 column 1 (char 0)''))"
    by (simp add: ebind_def not_json_def)
  from call_openai_api_malformed_200 [OF g k r m1, of initial_app]
  have "fst (call_openai_api demo_runtime (fixed_world 200 ?b) (JArr []) initial_app)
      = JStr (lit ''Error calling OpenAI API: '' @ str_exn demo_runtime (IndexError (JArr [])))"
    unfolding e1 by simp
  moreover
  from call_openai_api_malformed_200 [OF g k r m2, of initial_app]
  have "fst (call_openai_api demo_runtime (fixed_world 200 not_json) (JArr []) initial_app)
      = JStr (lit ''Error calling OpenAI API: '' @ str_exn demo_runtime
          (JSONDecodeError (lit ''Expecting value: line 1 column 1 (char 0)'')))"
    unfolding e2 by simp
  ultimately show ?thesis
    by (simp add: demo_runtime_def)
qed

section \<open>How the functions change the page state\<close>

lemma search_web_eq:
  "search_web rt w q a = (search_result rt w q, a\<lparr>sent := sent a @ [GET (search_url q) 10]\<rparr>)"
  by (simp add: search_web_def search_result_def request_def Let_def
      split: sum.splits http_outcome.splits)

lemma call_openai_api_eq:
  "call_openai_api rt w m a =
     (chat_result rt w m,
      case credential w of
        Some k \<Rightarrow> a\<lparr>sent := sent a @ [chat_request rt k m]\<rparr>
      | None \<Rightarrow> a)"
  by (simp add: call_openai_api_def chat_result_def request_def credential_def Let_def
      split: sum.splits http_outcome.splits)

lemma research_result_eq:
  "research_result rt w q = chat_result rt w (research_messages q (search_result rt w q))"
  by (simp add: research_result_def research_agent_def search_web_eq call_openai_api_eq Let_def)

lemma research_agent_eq:
  "research_agent rt w q a =
     (research_result rt w q,
      a\<lparr>screen := screen a @ [StMarkdown research_working_html],
        sent := sent a @ GET (search_url q) 10 #
          (case credential w of
             Some k \<Rightarrow> [chat_request rt k (research_messages q (search_result rt w q))]
           | None \<Rightarrow> [])\<rparr>)"
  by (simp add: research_result_eq research_agent_def search_web_eq call_openai_api_eq Let_def
      emit_def split: option.splits)

lemma chart_result_eq:
  "chart_result rt w r q = chat_result rt w (chart_messages rt r q)"
  by (simp add: chart_result_def chart_generator_agent_def call_openai_api_eq Let_def)

lemma chart_generator_agent_eq:
  "chart_generator_agent rt w r q a =
     (chart_result rt w r q,
      a\<lparr>screen := screen a @ [StMarkdown chart_working_html],
        sent := sent a @
          (case credential w of
             Some k \<Rightarrow> [chat_request rt k (chart_messages rt r q)]
           | None \<Rightarrow> [])\<rparr>)"
  by (simp add: chart_result_eq chart_generator_agent_def call_openai_api_eq Let_def emit_def
      split: option.splits)


lemma example_buttons_fields:
  "research_data (example_buttons c qs a) = research_data a \<and>
   chart_code (example_buttons c qs a) = chart_code a \<and>
   sent (example_buttons c qs a) = sent a \<and>
   screen (example_buttons c qs a)
     = screen a @ map (\<lambda>q. StButton ([0x1F4DD] @ lit '' '' @ q)) qs"
  by (induction qs arbitrary: a) (simp_all add: emit_def Let_def)

lemma example_buttons_update:
  "example_buttons c qs (a\<lparr>research_data := x, chart_code := y\<rparr>)
     = (example_buttons c qs a)\<lparr>research_data := x, chart_code := y\<rparr>"
proof (induction qs arbitrary: a)
  case Nil
  show ?case by simp
next
  case (Cons q qs)
  let ?step = "\<lambda>a. let a1 = emit (StButton ([0x1F4DD] @ lit '' '' @ q)) a
                    in if c q then a1\<lparr>selected_query := Some q\<rparr> else a1"
  have "example_buttons c (q # qs) (a\<lparr>research_data := x, chart_code := y\<rparr>)
      = example_buttons c qs ((?step a)\<lparr>research_data := x, chart_code := y\<rparr>)"
    by (cases a) (simp add: emit_def Let_def)
  also have "\<dots> = (example_buttons c qs (?step a))\<lparr>research_data := x, chart_code := y\<rparr>"
    by (rule Cons.IH)
  also have "\<dots> = (example_buttons c (q # qs) a)\<lparr>research_data := x, chart_code := y\<rparr>"
    by simp
  finally show ?case .
qed

lemma sidebar_fields:
  "research_data (sidebar inp a) = research_data a \<and>
   chart_code (sidebar inp a) = chart_code a \<and>
   sent (sidebar inp a) = sent a \<and>
   screen (sidebar inp a)
     = screen a @ [StHeader ([0x1F4CB] @ lit '' How it works''), StMarkdown how_it_works_md,
         StHeader ([0x1F4A1] @ lit '' Example Queries'')]
       @ map (\<lambda>q. StButton ([0x1F4DD] @ lit '' '' @ q)) example_queries"
  by (simp add: sidebar_def example_buttons_fields emit_def Let_def)

lemma sidebar_update:
  "sidebar inp (a\<lparr>research_data := x, chart_code := y\<rparr>)
     = (sidebar inp a)\<lparr>research_data := x, chart_code := y\<rparr>"
proof -
  let ?pre = "\<lambda>a. emit (StHeader ([0x1F4A1] @ lit '' Example Queries''))
      (emit (StMarkdown how_it_works_md) (emit (StHeader ([0x1F4CB] @ lit '' How it works'')) a))"
  have "sidebar inp (a\<lparr>research_data := x, chart_code := y\<rparr>)
      = example_buttons (example_clicked inp) example_queries
          ((?pre a)\<lparr>research_data := x, chart_code := y\<rparr>)"
    by (cases a) (simp add: sidebar_def emit_def Let_def)
  also have "\<dots> = (example_buttons (example_clicked inp) example_queries (?pre a))
      \<lparr>research_data := x, chart_code := y\<rparr>"
    by (rule example_buttons_update)
  also have "\<dots> = (sidebar inp a)\<lparr>research_data := x, chart_code := y\<rparr>"
    by (simp add: sidebar_def Let_def)
  finally show ?thesis .
qed

lemma submission_reset:
  "submission rt w q (a\<lparr>research_data := x, chart_code := y\<rparr>) = submission rt w q a"
  by (simp add: submission_def)

lemma submission_fields:
  "research_data (submission rt w q a)
     = (if truthy (research_result rt w q) then research_result rt w q else JNull) \<and>
   chart_code (submission rt w q a)
     = (if truthy (research_result rt w q) \<and>
           truthy (chart_result rt w (research_result rt w q) q)
        then chart_result rt w (research_result rt w q) q else JNull) \<and>
   screen (submission rt w q a)
     = screen a @ [StSpinner ([0x1F50D] @ lit '' Researching data...''),
                   StMarkdown research_working_html]
       @ (if truthy (research_result rt w q)
          then [StMarkdown research_results_html, StWrite (research_result rt w q),
                StSpinner ([0x1F4CA] @ lit '' Generating chart code...''),
                StMarkdown chart_working_html]
               @ (if truthy (chart_result rt w (research_result rt w q) q)
                  then [StMarkdown chart_results_html,
                        StCode (chart_result rt w (research_result rt w q) q),
                        StSuccess ([0x1F389] @ lit '' Chart code generated successfully!''),
                        StInfo ([0x1F4A1]
                          @ lit '' Copy the code above and run it in your local Python environment.''),
                        StDownloadButton ([0x1F4E5] @ lit '' Download Python Code'')
                          (chart_result rt w (research_result rt w q) q)
                          (download_file_name q) (lit ''text/plain'')]
                  else [])
          else [])"
  by (simp add: submission_def chart_step_def show_chart_code_def research_agent_eq
      chart_generator_agent_eq emit_def Let_def)

lemma previous_results_fields:
  "research_data (previous_results a) = research_data a \<and>
   chart_code (previous_results a) = chart_code a \<and>
   sent (previous_results a) = sent a \<and>
   screen (previous_results a)
     = screen a @ (if truthy (research_data a) \<and> truthy (chart_code a)
                   then [StMarkdown (lit ''---''),
                         StHeader ([0x1F4CB] @ lit '' Previous Results''),
                         StExpander (lit ''View Research Data''), StWrite (research_data a),
                         StExpander (lit ''View Chart Code''), StCode (chart_code a)]
                   else [])"
  by (simp add: previous_results_def emit_def Let_def)

lemma displayed_append: "displayed (xs @ ys) = displayed xs @ displayed ys"
  by (induction xs rule: displayed.induct) simp_all

lemma displayed_buttons: "displayed (map (\<lambda>q. StButton (f q)) qs) = []"
  by (induction qs) simp_all

lemma main_without_key:
  assumes "credential w = None"
  shows "research_data (main rt w inp a) = research_data a \<and>
         chart_code (main rt w inp a) = chart_code a \<and>
         sent (main rt w inp a) = sent a \<and>
         displayed (screen (main rt w inp a))
           = displayed (screen a) @
             (case get_api_key w of
                Inl e \<Rightarrow> []
              | Inr k \<Rightarrow>
                  [StCode (JStr (lit ''OPENAI_API_KEY = '' @ [34] @ lit ''sk-your-key-here''
                     @ [34]))])"
  using assms
  by (simp add: main_def Let_def emit_def sidebar_fields displayed_append displayed_buttons
      credential_def split: sum.splits if_splits)

lemma main_idle:
  assumes "credential w = Some k" and "\<not> generate_clicked inp \<or> user_query inp = []"
  shows "research_data (main rt w inp a) = research_data a \<and>
         chart_code (main rt w inp a) = chart_code a \<and>
         sent (main rt w inp a) = sent a \<and>
         displayed (screen (main rt w inp a))
           = displayed (screen a) @
             (if truthy (research_data a) \<and> truthy (chart_code a)
              then [StWrite (research_data a), StCode (chart_code a)] else [])"
  using credential_SomeD [OF assms(1)] assms(2)
  by (auto simp: main_def Let_def emit_def sidebar_fields previous_results_fields
      displayed_append displayed_buttons)

lemma main_submission:
  assumes "credential w = Some k" and "generate_clicked inp" and "user_query inp \<noteq> []"
  shows "research_data (main rt w inp a)
           = (if truthy (research_result rt w (user_query inp))
              then research_result rt w (user_query inp) else JNull) \<and>
         chart_code (main rt w inp a)
           = (if truthy (research_result rt w (user_query inp)) \<and>
                 truthy (chart_result rt w (research_result rt w (user_query inp)) (user_query inp))
              then chart_result rt w (research_result rt w (user_query inp)) (user_query inp)
              else JNull) \<and>
         displayed (screen (main rt w inp a))
           = displayed (screen a) @
             (if truthy (research_result rt w (user_query inp))
              then StWrite (research_result rt w (user_query inp)) #
                (if truthy (chart_result rt w (research_result rt w (user_query inp))
                      (user_query inp))
                 then [StCode (chart_result rt w (research_result rt w (user_query inp))
                         (user_query inp)),
                       StWrite (research_result rt w (user_query inp)),
                       StCode (chart_result rt w (research_result rt w (user_query inp))
                         (user_query inp))]
                 else [])
              else [])"
  using credential_SomeD [OF assms(1)] assms(2,3)
  by (simp add: main_def Let_def emit_def sidebar_fields previous_results_fields
      submission_fields displayed_append displayed_buttons)

section \<open>Empty submissions\<close>

text \<open>
  Claim C5.  In a run in which the generate button is pressed and the query is empty,
  the stored research text and chart code are what they were and no request is sent,
  neither to the search service nor to the chat service.  The button exists only in a
  run that has passed the credential check, and in every such run the warning is put
  on the page.
\<close>

theorem empty_query_submission:
  assumes "generate_clicked inp" and "user_query inp = []"
  shows "research_data (main rt w inp a) = research_data a \<and>
         chart_code (main rt w inp a) = chart_code a \<and>
         sent (main rt w inp a) = sent a \<and>
         (\<forall>k. get_api_key w = Inr k \<and> truthy k \<longrightarrow>
            StWarning ([0x26A0, 0xFE0F] @ lit '' Please enter a query!'')
              \<in> set (screen (main rt w inp a)))"
proof (cases "credential w")
  case (Some k)
  have "StWarning ([0x26A0, 0xFE0F] @ lit '' Please enter a query!'')
      \<in> set (screen (main rt w inp a))"
    using credential_SomeD [OF Some] assms
    by (simp add: main_def Let_def emit_def previous_results_fields)
  with main_idle [OF Some, of inp rt a] assms(2) show ?thesis by simp
next
  case None
  then have "\<not> (get_api_key w = Inr k \<and> truthy k)" for k
    by (auto simp: credential_def)
  with main_without_key [OF None, of rt inp a] show ?thesis by auto
qed

theorem empty_query_submission_witness:
  "research_data (main demo_runtime demo_world empty_input initial_app) = JNull \<and>
   chart_code (main demo_runtime demo_world empty_input initial_app) = JNull \<and>
   sent (main demo_runtime demo_world empty_input initial_app) = [] \<and>
   StWarning ([0x26A0, 0xFE0F] @ lit '' Please enter a query!'')
     \<in> set (screen (main demo_runtime demo_world empty_input initial_app))"
proof -
  have c: "generate_clicked empty_input" and q: "user_query empty_input = []"
    by (simp_all add: empty_input_def)
  have k: "get_api_key demo_world = Inr (JStr (lit ''sk-test'')) \<and>
      truthy (JStr (lit ''sk-test''))"
    by (simp add: demo_key)
  from empty_query_submission [OF c q, of demo_runtime demo_world initial_app] k
  show ?thesis by (simp add: initial_app_def)
qed

section \<open>The session invariant\<close>

lemma rerun_idle:
  assumes "\<not> submits w inp"
  shows "research_data (rerun rt w inp a) = research_data a \<and>
         chart_code (rerun rt w inp a) = chart_code a"
proof (cases "credential w")
  case None
  from main_without_key [OF None] show ?thesis by (simp add: rerun_def)
next
  case (Some k)
  with assms have "\<not> generate_clicked inp \<or> user_query inp = []"
    by (simp add: submits_def)
  from main_idle [OF Some this] show ?thesis by (simp add: rerun_def)
qed

lemma rerun_submission:
  assumes "submits w inp"
  shows "research_data (rerun rt w inp a)
           = (if truthy (research_result rt w (user_query inp))
              then research_result rt w (user_query inp) else JNull) \<and>
         chart_code (rerun rt w inp a)
           = (if truthy (research_result rt w (user_query inp)) \<and>
                 truthy (chart_result rt w (research_result rt w (user_query inp)) (user_query inp))
              then chart_result rt w (research_result rt w (user_query inp)) (user_query inp)
              else JNull) \<and>
         displayed (screen (rerun rt w inp a))
           = (if truthy (research_result rt w (user_query inp))
              then StWrite (research_result rt w (user_query inp)) #
                (if truthy (chart_result rt w (research_result rt w (user_query inp))
                      (user_query inp))
                 then [StCode (chart_result rt w (research_result rt w (user_query inp))
                         (user_query inp)),
                       StWrite (research_result rt w (user_query inp)),
                       StCode (chart_result rt w (research_result rt w (user_query inp))
                         (user_query inp))]
                 else [])
              else [])"
proof -
  from assms obtain k where k: "credential w = Some k"
    and c: "generate_clicked inp" and q: "user_query inp \<noteq> []"
    by (auto simp: submits_def)
  from main_submission [OF k c q, of rt "a\<lparr>screen := [], sent := []\<rparr>"]
  show ?thesis by (simp add: rerun_def)
qed

lemma reachable_stored: "reachable rt cur a \<Longrightarrow> stored_for rt cur a"
proof (induction rule: reachable.induct)
  case start
  show ?case by (simp add: stored_for_def initial_app_def)
next
  case (run cur a w inp)
  show ?case
  proof (cases "submits w inp")
    case True
    then have "user_query inp \<noteq> []" by (simp add: submits_def)
    with rerun_submission [OF True, of rt a] True show ?thesis
      by (simp add: stored_for_def)
  next
    case False
    with rerun_idle [OF False, of rt a] run.IH show ?thesis
      by (auto simp: stored_for_def split: option.splits)
  qed
qed

lemma main_reset:
  assumes "credential w = Some k" and "generate_clicked inp" and "user_query inp \<noteq> []"
  shows "main rt w inp (a\<lparr>research_data := x, chart_code := y\<rparr>) = main rt w inp a"
proof -
  let ?pre = "\<lambda>a. emit (StButton ([0x1F680] @ lit '' Generate Research & Chart Code''))
      (let a3 = emit (StSuccess ([0x2705] @ lit '' AI System Ready!''))
                  (sidebar inp (emit (StMarkdown main_header_html) a))
       in emit (StTextInput
                  ([0x1F3AF] @ lit '' What would you like to research and visualize?'')
                  (case selected_query a3 of Some q \<Rightarrow> q | None \<Rightarrow> [])) a3)"
  have m: "main rt w inp b = previous_results (submission rt w (user_query inp) (?pre b))" for b
    using credential_SomeD [OF assms(1)] assms(2,3) by (simp add: main_def Let_def)
  have e: "emit ev (b\<lparr>research_data := x, chart_code := y\<rparr>)
      = (emit ev b)\<lparr>research_data := x, chart_code := y\<rparr>" for ev b
    by (cases b) (simp add: emit_def)
  have s: "selected_query (b\<lparr>research_data := x, chart_code := y\<rparr>) = selected_query b" for b
    by simp
  have "?pre (a\<lparr>research_data := x, chart_code := y\<rparr>)
      = (?pre a)\<lparr>research_data := x, chart_code := y\<rparr>"
    unfolding Let_def e sidebar_update s ..
  then show ?thesis
    unfolding m by (simp only: submission_reset)
qed

lemma rerun_reset:
  assumes "submits w inp"
  shows "rerun rt w inp (b\<lparr>research_data := x, chart_code := y\<rparr>) = rerun rt w inp b"
proof -
  from assms obtain k where k: "credential w = Some k"
    and c: "generate_clicked inp" and q: "user_query inp \<noteq> []"
    by (auto simp: submits_def)
  have "(b\<lparr>research_data := x, chart_code := y\<rparr>)\<lparr>screen := [], sent := []\<rparr>
      = (b\<lparr>screen := [], sent := []\<rparr>)\<lparr>research_data := x, chart_code := y\<rparr>"
    by (cases b) simp
  then show ?thesis
    by (simp only: rerun_def main_reset [OF k c q])
qed

text \<open>
  Claim C4.  Every reachable session state is stored with its current query, the
  query of the latest submission.  When the chart code is populated, there is a current
  query, it is not empty, the stored research text is the non-empty research produced
  for it, and the chart code is the non-empty code generated from that text and that
  query.  A submission clears both values before the agents run: whatever research
  text and chart code were stored before, the run, with its whole page and its
  requests, is the same; afterwards the stored values are those of this run (nothing
  where an agent gave nothing), and the research texts and chart codes on the page
  are those of this run only.
\<close>

theorem session_invariant_and_reset:
  "(reachable rt cur a \<longrightarrow> chart_code a \<noteq> JNull \<longrightarrow>
      (\<exists>w q. cur = Some (w, q) \<and> q \<noteq> [] \<and>
             research_data a = research_result rt w q \<and> truthy (research_data a) \<and>
             chart_code a = chart_result rt w (research_data a) q \<and>
             truthy (chart_code a))) \<and>
   (submits w inp \<longrightarrow>
      rerun rt w inp (b\<lparr>research_data := x, chart_code := y\<rparr>) = rerun rt w inp b \<and>
      research_data (rerun rt w inp b)
        = (if truthy (research_result rt w (user_query inp))
           then research_result rt w (user_query inp) else JNull) \<and>
      chart_code (rerun rt w inp b)
        = (if truthy (research_result rt w (user_query inp)) \<and>
              truthy (chart_result rt w (research_result rt w (user_query inp)) (user_query inp))
           then chart_result rt w (research_result rt w (user_query inp)) (user_query inp)
           else JNull) \<and>
      displayed (screen (rerun rt w inp b))
        = (if truthy (research_result rt w (user_query inp))
           then StWrite (research_result rt w (user_query inp)) #
             (if truthy (chart_result rt w (research_result rt w (user_query inp))
                   (user_query inp))
              then [StCode (chart_result rt w (research_result rt w (user_query inp))
                      (user_query inp)),
                    StWrite (research_result rt w (user_query inp)),
                    StCode (chart_result rt w (research_result rt w (user_query inp))
                      (user_query inp))]
              else [])
           else []))"
proof (intro conjI impI)
  assume r: "reachable rt cur a" and c: "chart_code a \<noteq> JNull"
  from reachable_stored [OF r] c
  show "\<exists>w q. cur = Some (w, q) \<and> q \<noteq> [] \<and>
             research_data a = research_result rt w q \<and> truthy (research_data a) \<and>
             chart_code a = chart_result rt w (research_data a) q \<and>
             truthy (chart_code a)"
    by (cases cur) (auto simp: stored_for_def split: if_splits)
next
  assume s: "submits w inp"
  show "rerun rt w inp (b\<lparr>research_data := x, chart_code := y\<rparr>) = rerun rt w inp b"
    by (rule rerun_reset [OF s])
  from rerun_submission [OF s, of rt b]
  show "research_data (rerun rt w inp b)
        = (if truthy (research_result rt w (user_query inp))
           then research_result rt w (user_query inp) else JNull)"
    and "chart_code (rerun rt w inp b)
        = (if truthy (research_result rt w (user_query inp)) \<and>
              truthy (chart_result rt w (research_result rt w (user_query inp)) (user_query inp))
           then chart_result rt w (research_result rt w (user_query inp)) (user_query inp)
           else JNull)"
    and "displayed (screen (rerun rt w inp b))
        = (if truthy (research_result rt w (user_query inp))
           then StWrite (research_result rt w (user_query inp)) #
             (if truthy (chart_result rt w (research_result rt w (user_query inp))
                   (user_query inp))
              then [StCode (chart_result rt w (research_result rt w (user_query inp))
                      (user_query inp)),
                    StWrite (research_result rt w (user_query inp)),
                    StCode (chart_result rt w (research_result rt w (user_query inp))
                      (user_query inp))]
              else [])
           else [])"
    by simp_all
qed

lemma demo_chat_result: "chat_result demo_runtime demo_world m = JStr (lit ''plt.show()'')"
proof -
  have h: "http demo_world (chat_request demo_runtime k m) = Response 200 (Inr demo_chat_body)"
    for k
    by (simp add: demo_world_def chat_request_def)
  have f: "first_choice_content demo_chat_body = Inr (JStr (lit ''plt.show()''))"
    by (simp add: first_choice_content_def demo_chat_body_def ebind_def lit_def)
  show ?thesis
    by (simp add: chat_result_def call_openai_api_def demo_key request_def h ebind_def f)
qed

lemma demo_results:
  "research_result demo_runtime demo_world q = JStr (lit ''plt.show()'')"
  "chart_result demo_runtime demo_world r q = JStr (lit ''plt.show()'')"
  by (simp_all add: research_result_eq chart_result_eq demo_chat_result)

lemma demo_input_fields:
  "generate_clicked demo_input" "user_query demo_input \<noteq> []"
  by (simp_all add: demo_input_def)

lemma demo_run_fields:
  "research_data (rerun demo_runtime demo_world demo_input a) = JStr (lit ''plt.show()'')"
  "chart_code (rerun demo_runtime demo_world demo_input a) = JStr (lit ''plt.show()'')"
  using main_submission [OF demo_credential demo_input_fields,
      of demo_runtime "a\<lparr>screen := [], sent := []\<rparr>"]
  by (simp_all add: demo_results rerun_def)

lemma demo_submits: "submits demo_world demo_input"
  by (simp add: submits_def demo_credential demo_input_fields)

theorem session_invariant_and_reset_witness:
  "reachable demo_runtime (Some (demo_world, user_query demo_input))
     (rerun demo_runtime demo_world demo_input initial_app) \<and>
   chart_code (rerun demo_runtime demo_world demo_input initial_app) \<noteq> JNull \<and>
   research_data (rerun demo_runtime demo_world demo_input initial_app)
     = research_result demo_runtime demo_world (user_query demo_input) \<and>
   truthy (research_data (rerun demo_runtime demo_world demo_input initial_app)) \<and>
   rerun demo_runtime demo_world demo_input
     (initial_app\<lparr>research_data := JStr (lit ''old text''), chart_code := JStr (lit ''old code'')\<rparr>)
     = rerun demo_runtime demo_world demo_input initial_app \<and>
   displayed (screen (rerun demo_runtime demo_world demo_input initial_app))
     = [StWrite (JStr (lit ''plt.show()'')), StCode (JStr (lit ''plt.show()'')),
        StWrite (JStr (lit ''plt.show()'')), StCode (JStr (lit ''plt.show()''))]"
proof -
  let ?a = "rerun demo_runtime demo_world demo_input initial_app"
  have r: "reachable demo_runtime (Some (demo_world, user_query demo_input)) ?a"
    using reachable.run [OF reachable.start, of demo_runtime demo_world demo_input]
      demo_submits by simp
  have c: "chart_code ?a \<noteq> JNull"
    by (simp add: demo_run_fields)
  from session_invariant_and_reset [where rt = demo_runtime and a = ?a and w = demo_world
      and cur = "Some (demo_world, user_query demo_input)"
      and inp = demo_input and b = initial_app and x = "JStr (lit ''old text'')"
      and y = "JStr (lit ''old code'')"] r c demo_submits
  show ?thesis by (auto simp: demo_results)
qed

section \<open>The download\<close>

lemma example_buttons_selected:
  "selected_query a = selected_query b \<Longrightarrow>
   selected_query (example_buttons c qs a) = selected_query (example_buttons c qs b)"
proof (induction qs arbitrary: a b)
  case Nil
  then show ?case by simp
next
  case (Cons q qs)
  show ?case
    using Cons.prems by (auto intro!: Cons.IH simp: emit_def Let_def)
qed

lemma sidebar_selected:
  "selected_query (sidebar inp (a\<lparr>screen := s\<rparr>)) = selected_query (sidebar inp a)"
  unfolding sidebar_def Let_def
  by (rule example_buttons_selected) (simp add: emit_def)

lemma main_success_screen:
  assumes "credential w = Some k" and "generate_clicked inp" and "user_query inp \<noteq> []"
    and "truthy (research_result rt w (user_query inp))"
    and "truthy (chart_result rt w (research_result rt w (user_query inp)) (user_query inp))"
  shows "screen (main rt w inp a)
    = screen a @ [StMarkdown main_header_html,
        StHeader ([0x1F4CB] @ lit '' How it works''), StMarkdown how_it_works_md,
        StHeader ([0x1F4A1] @ lit '' Example Queries'')]
      @ map (\<lambda>q. StButton ([0x1F4DD] @ lit '' '' @ q)) example_queries
      @ [StSuccess ([0x2705] @ lit '' AI System Ready!''),
         StTextInput ([0x1F3AF] @ lit '' What would you like to research and visualize?'')
           (case selected_query (sidebar inp a) of Some q \<Rightarrow> q | None \<Rightarrow> []),
         StButton ([0x1F680] @ lit '' Generate Research & Chart Code''),
         StSpinner ([0x1F50D] @ lit '' Researching data...''),
         StMarkdown research_working_html,
         StMarkdown research_results_html,
         StWrite (research_result rt w (user_query inp)),
         StSpinner ([0x1F4CA] @ lit '' Generating chart code...''),
         StMarkdown chart_working_html,
         StMarkdown chart_results_html,
         StCode (chart_result rt w (research_result rt w (user_query inp)) (user_query inp)),
         StSuccess ([0x1F389] @ lit '' Chart code generated successfully!''),
         StInfo ([0x1F4A1]
           @ lit '' Copy the code above and run it in your local Python environment.''),
         StDownloadButton ([0x1F4E5] @ lit '' Download Python Code'')
           (chart_result rt w (research_result rt w (user_query inp)) (user_query inp))
           (download_file_name (user_query inp)) (lit ''text/plain''),
         StMarkdown (lit ''---''),
         StHeader ([0x1F4CB] @ lit '' Previous Results''),
         StExpander (lit ''View Research Data''),
         StWrite (research_result rt w (user_query inp)),
         StExpander (lit ''View Chart Code''),
         StCode (chart_result rt w (research_result rt w (user_query inp)) (user_query inp))]"
  using credential_SomeD [OF assms(1)] assms(2-5)
  by (simp add: main_def Let_def sidebar_selected sidebar_fields previous_results_fields
      submission_fields emit_def)

text \<open>
  Claim C8.  After a run in which the research text and the chart code both came back
  non-empty, the page holds a download button whose file name is \<open>chart_\<close>, the
  first 20 characters of the query with every space replaced by an underscore, and
  \<open>.py\<close>, and whose data is the stored chart code; every download button of the
  page is this one, and every code panel of the page shows the same chart code.
\<close>

theorem download_matches_displayed_code:
  assumes "get_api_key w = Inr api_key" and "truthy api_key"
    and "generate_clicked inp" and "user_query inp \<noteq> []"
    and "truthy (research_result rt w (user_query inp))"
    and "truthy (chart_result rt w (research_result rt w (user_query inp)) (user_query inp))"
  shows "chart_code (rerun rt w inp a)
           = chart_result rt w (research_result rt w (user_query inp)) (user_query inp) \<and>
         StCode (chart_code (rerun rt w inp a)) \<in> set (screen (rerun rt w inp a)) \<and>
         StDownloadButton ([0x1F4E5] @ lit '' Download Python Code'')
             (chart_code (rerun rt w inp a))
             (lit ''chart_'' @ map (\<lambda>c. if c = 32 then 95 else c) (take 20 (user_query inp))
                @ lit ''.py'')
             (lit ''text/plain'')
           \<in> set (screen (rerun rt w inp a)) \<and>
         (\<forall>v. StCode v \<in> set (screen (rerun rt w inp a)) \<longrightarrow>
              v = chart_code (rerun rt w inp a)) \<and>
         (\<forall>l d n m. StDownloadButton l d n m \<in> set (screen (rerun rt w inp a)) \<longrightarrow>
              d = chart_code (rerun rt w inp a) \<and> n = download_file_name (user_query inp))"
proof -
  let ?a = "a\<lparr>screen := [], sent := []\<rparr>"
  note k = credential_Some [OF assms(1,2)]
  have c: "chart_code (rerun rt w inp a)
      = chart_result rt w (research_result rt w (user_query inp)) (user_query inp)"
    using main_submission [OF k assms(3,4), of rt ?a] assms(5,6) by (simp add: rerun_def)
  have s: "screen ?a = []" by simp
  note scr = main_success_screen [OF k assms(3-6), of ?a, unfolded s append_Nil,
      folded rerun_def]
  show ?thesis
    unfolding c scr
    by (auto simp: download_file_name_def replace_space_def)
qed

theorem download_matches_displayed_code_witness:
  "StDownloadButton ([0x1F4E5] @ lit '' Download Python Code'') (JStr (lit ''plt.show()''))
     (lit ''chart_'' @ lit ''UK_GDP_past_3_years_'' @ lit ''.py'') (lit ''text/plain'')
     \<in> set (screen (rerun demo_runtime demo_world demo_input initial_app)) \<and>
   StCode (JStr (lit ''plt.show()''))
     \<in> set (screen (rerun demo_runtime demo_world demo_input initial_app))"
proof -
  have k: "truthy (JStr (lit ''sk-test''))"
    by simp
  have r: "truthy (research_result demo_runtime demo_world (user_query demo_input))"
    by (simp add: demo_results)
  have c: "truthy (chart_result demo_runtime demo_world
      (research_result demo_runtime demo_world (user_query demo_input)) (user_query demo_input))"
    by (simp add: demo_results)
  have n: "map (\<lambda>c. if c = 32 then 95 else c) (take 20 (user_query demo_input))
      = lit ''UK_GDP_past_3_years_''"
    by (simp add: demo_input_def lit_def)
  from download_matches_displayed_code [OF demo_key k demo_input_fields r c, of initial_app]
  show ?thesis
    unfolding n by (simp add: demo_run_fields demo_results)
qed

section \<open>Resubmission\<close>

lemma results_agree:
  assumes "http w1 = http w2" and "get_api_key w1 = get_api_key w2"
  shows "search_result rt w1 q = search_result rt w2 q"
    and "chat_result rt w1 m = chat_result rt w2 m"
    and "research_result rt w1 q = research_result rt w2 q"
    and "chart_result rt w1 r q = chart_result rt w2 r q"
proof -
  show s: "search_result rt w1 q = search_result rt w2 q"
    by (simp add: search_result_def search_web_def request_def Let_def assms(1))
  show c: "chat_result rt w1 m = chat_result rt w2 m" for m
    by (simp add: chat_result_def call_openai_api_def request_def Let_def assms
        split: sum.splits)
  show "research_result rt w1 q = research_result rt w2 q"
    by (simp add: research_result_eq s c)
  show "chart_result rt w1 r q = chart_result rt w2 r q"
    by (simp add: chart_result_eq c)
qed

lemma rerun_displayed:
  "displayed (screen (rerun rt w inp a)) =
     (case get_api_key w of
        Inl e \<Rightarrow> []
      | Inr k \<Rightarrow>
          if \<not> truthy k
          then [StCode (JStr (lit ''OPENAI_API_KEY = '' @ [34] @ lit ''sk-your-key-here''
                  @ [34]))]
          else if generate_clicked inp \<and> user_query inp \<noteq> []
          then (if truthy (research_result rt w (user_query inp))
                then StWrite (research_result rt w (user_query inp)) #
                  (if truthy (chart_result rt w (research_result rt w (user_query inp))
                        (user_query inp))
                   then [StCode (chart_result rt w (research_result rt w (user_query inp))
                           (user_query inp)),
                         StWrite (research_result rt w (user_query inp)),
                         StCode (chart_result rt w (research_result rt w (user_query inp))
                           (user_query inp))]
                   else [])
                else [])
          else if truthy (research_data a) \<and> truthy (chart_code a)
          then [StWrite (research_data a), StCode (chart_code a)] else [])"
proof (cases "credential w")
  case None
  from main_without_key [OF None, of rt inp "a\<lparr>screen := [], sent := []\<rparr>"] None
  show ?thesis by (simp add: rerun_def credential_def split: sum.splits if_splits)
next
  case (Some k)
  note key = credential_SomeD [OF Some]
  show ?thesis
  proof (cases "generate_clicked inp \<and> user_query inp \<noteq> []")
    case False
    then have "\<not> generate_clicked inp \<or> user_query inp = []" by blast
    from main_idle [OF Some this, of rt "a\<lparr>screen := [], sent := []\<rparr>"] key False
    show ?thesis by (simp add: rerun_def)
  next
    case run: True
    then have c: "generate_clicked inp" and q: "user_query inp \<noteq> []" by simp_all
    from main_submission [OF Some c q, of rt "a\<lparr>screen := [], sent := []\<rparr>"] key run
    show ?thesis by (simp add: rerun_def)
  qed
qed

text \<open>
  Claim C9.  Take two submissions with the same query text, against backends that
  answer every request alike and hold the same credential.  Submitted one after the
  other in a session, the second run displays the same research text and chart code
  as the first; for a non-empty query the two runs display the same in any two
  sessions.  The values the two agents return depend on the query, the backend and
  the credential only.
\<close>

theorem resubmission_same_display:
  assumes "http w1 = http w2" and "get_api_key w1 = get_api_key w2"
    and "user_query inp1 = user_query inp2"
    and "generate_clicked inp1" and "generate_clicked inp2"
  shows "displayed (screen (rerun rt w2 inp2 (rerun rt w1 inp1 a)))
           = displayed (screen (rerun rt w1 inp1 a)) \<and>
         (user_query inp1 \<noteq> [] \<longrightarrow>
            displayed (screen (rerun rt w1 inp1 a1)) = displayed (screen (rerun rt w2 inp2 a2))) \<and>
         fst (research_agent rt w1 q b1) = fst (research_agent rt w2 q b2) \<and>
         fst (chart_generator_agent rt w1 r q b1) = fst (chart_generator_agent rt w2 r q b2)"
proof (intro conjI impI)
  note agree = results_agree [OF assms(1,2)]
  show "fst (research_agent rt w1 q b1) = fst (research_agent rt w2 q b2)"
    by (simp add: research_agent_eq agree)
  show "fst (chart_generator_agent rt w1 r q b1) = fst (chart_generator_agent rt w2 r q b2)"
    by (simp add: chart_generator_agent_eq agree)
  show "displayed (screen (rerun rt w1 inp1 a1)) = displayed (screen (rerun rt w2 inp2 a2))"
    if "user_query inp1 \<noteq> []"
    using that assms(2-5) by (simp add: rerun_displayed agree split: sum.splits)
  show "displayed (screen (rerun rt w2 inp2 (rerun rt w1 inp1 a)))
      = displayed (screen (rerun rt w1 inp1 a))"
  proof (cases "submits w1 inp1")
    case False
    from rerun_idle [OF False, of rt a]
    have "research_data (rerun rt w1 inp1 a) = research_data a"
      and "chart_code (rerun rt w1 inp1 a) = chart_code a"
      by simp_all
    with False assms(2-5) show ?thesis
      by (auto simp: rerun_displayed submits_def credential_def split: sum.splits if_splits)
  next
    case True
    then have "generate_clicked inp1 \<and> user_query inp1 \<noteq> []"
      by (simp add: submits_def)
    with assms(2-5) show ?thesis
      by (simp add: rerun_displayed agree split: sum.splits)
  qed
qed

theorem resubmission_same_display_witness:
  "displayed (screen (rerun demo_runtime demo_world demo_input
      (rerun demo_runtime demo_world demo_input initial_app)))
     = displayed (screen (rerun demo_runtime demo_world demo_input initial_app)) \<and>
   displayed (screen (rerun demo_runtime demo_world demo_input initial_app))
     = [StWrite (JStr (lit ''plt.show()'')), StCode (JStr (lit ''plt.show()'')),
        StWrite (JStr (lit ''plt.show()'')), StCode (JStr (lit ''plt.show()''))]"
proof -
  have d: "displayed (screen (rerun demo_runtime demo_world demo_input initial_app))
     = [StWrite (JStr (lit ''plt.show()'')), StCode (JStr (lit ''plt.show()'')),
        StWrite (JStr (lit ''plt.show()'')), StCode (JStr (lit ''plt.show()''))]"
    by (simp add: rerun_displayed demo_key demo_input_fields demo_results)
  from resubmission_same_display [where ?w1.0 = demo_world and ?w2.0 = demo_world
      and ?inp1.0 = demo_input and ?inp2.0 = demo_input and rt = demo_runtime
      and a = initial_app, OF refl refl refl demo_input_fields(1) demo_input_fields(1)] d
  show ?thesis by blast
qed

section \<open>The request URL\<close>

lemma upper_escapes_plain: "37 \<notin> set s \<Longrightarrow> upper_escapes s = s"
  by (induction s rule: upper_escapes.induct) auto

lemma count_escapes_plain: "37 \<notin> set s \<Longrightarrow> count_escapes s = 0"
  by (induction s rule: count_escapes.induct) auto

lemma utf8_ascii: "c < 128 \<Longrightarrow> utf8 c = [c]"
  by (simp add: utf8_def)

lemma utf8_high: "128 \<le> c \<Longrightarrow> b \<in> set (utf8 c) \<Longrightarrow> 128 \<le> b"
  by (auto simp: utf8_def split: if_splits)

lemma utf8_byte: "c < 1114112 \<Longrightarrow> b \<in> set (utf8 c) \<Longrightarrow> b < 256"
  by (auto simp: utf8_def split: if_splits)

lemma utf8_no_percent: "c \<noteq> 37 \<Longrightarrow> 37 \<notin> set (utf8 c)"
  by (auto simp: utf8_def)

lemma bytes_no_percent: "37 \<notin> set s \<Longrightarrow> count_list (concat (map utf8 s)) 37 = 0"
  by (induction s) (auto simp: utf8_no_percent count_list_0_iff)

lemma concat_map_if_never:
  "\<forall>b\<in>set bs. \<not> P b \<Longrightarrow> concat (map (\<lambda>b. if P b then g b else f b) bs) = concat (map f bs)"
  by (induction bs) auto

lemma encode_char:
  "c \<noteq> 37 \<Longrightarrow>
   concat (map (\<lambda>b. if (e \<and> b = 37) \<or> (b < 128 \<and> query_char b) then [b] else percent_escape b)
     (utf8 c)) = sent_as c"
proof (cases "c < 128")
  case True
  assume "c \<noteq> 37"
  with True show ?thesis by (simp add: utf8_ascii sent_as_def)
next
  case False
  then have h: "\<forall>b\<in>set (utf8 c). 128 \<le> b"
    using utf8_high [of c] by auto
  then have "\<forall>b\<in>set (utf8 c). \<not> ((e \<and> b = 37) \<or> (b < 128 \<and> query_char b))"
    by auto
  then have "concat (map (\<lambda>b. if (e \<and> b = 37) \<or> (b < 128 \<and> query_char b) then [b]
      else percent_escape b) (utf8 c)) = concat (map percent_escape (utf8 c))"
    by (rule concat_map_if_never)
  with False show ?thesis by (simp add: sent_as_def)
qed

lemma encode_plain:
  assumes "37 \<notin> set s"
  shows "encode_invalid_chars s = concat (map sent_as s)"
proof -
  have "concat (map (\<lambda>b. if (e \<and> b = 37) \<or> (b < 128 \<and> query_char b) then [b]
      else percent_escape b) (concat (map utf8 s))) = concat (map sent_as s)" for e
    using assms by (induction s) (simp_all add: encode_char)
  then show ?thesis
    by (simp add: encode_invalid_chars_def Let_def upper_escapes_plain [OF assms])
qed


lemma hex_digit_facts:
  assumes "d < 16"
  shows "is_hex (hex_digit d)" and "is_alnum (hex_digit d)" and "hex_digit d \<noteq> 37"
    and "hex_value (hex_digit d) = d" and "hex_digit d < 128"
    and "unreserved (hex_digit d)"
  using assms by (auto simp: hex_digit_def is_hex_def is_alnum_def hex_value_def unreserved_def)

lemma unquote_plain:
  "c \<noteq> 37 \<Longrightarrow> unquote_unreserved (c # cs) = map_option ((#) c) (unquote_unreserved cs)"
  by (cases cs rule: unquote_unreserved.cases) simp_all

lemma unquote_escape:
  assumes "b < 256" and "\<not> unreserved b" and "unquote_unreserved t = Some r"
  shows "unquote_unreserved (percent_escape b @ t) = Some (percent_escape b @ r)"
proof -
  have d: "b div 16 < 16" "b mod 16 < 16"
    using assms(1) by simp_all
  have v: "16 * hex_value (hex_digit (b div 16)) + hex_value (hex_digit (b mod 16)) = b"
    by (simp add: hex_digit_facts(4) [OF d(1)] hex_digit_facts(4) [OF d(2)])
  show ?thesis
    using assms(2,3)
    by (simp add: percent_escape_def v hex_digit_facts [OF d(1)] hex_digit_facts [OF d(2)]
        unquote_plain)
qed

lemma unquote_escapes:
  assumes "\<forall>b\<in>set bs. b < 256 \<and> \<not> unreserved b" and "unquote_unreserved t = Some r"
  shows "unquote_unreserved (concat (map percent_escape bs) @ t)
           = Some (concat (map percent_escape bs) @ r)"
  using assms(1)
proof (induction bs)
  case Nil
  show ?case by (simp add: assms(2))
next
  case (Cons b bs)
  then show ?case
    by (simp add: unquote_escape)
qed

lemma query_char_unreserved: "unreserved c \<Longrightarrow> query_char c"
  by (simp add: query_char_def)

lemma unquote_sent_as:
  assumes "c \<noteq> 37" and "c < 1114112" and "unquote_unreserved t = Some r"
  shows "unquote_unreserved (sent_as c @ t) = Some (sent_as c @ r)"
proof (cases "c < 128 \<and> query_char c")
  case True
  with assms(1,3) show ?thesis
    by (simp add: sent_as_def unquote_plain)
next
  case False
  have "\<forall>b\<in>set (utf8 c). b < 256 \<and> \<not> unreserved b"
  proof
    fix b assume b: "b \<in> set (utf8 c)"
    show "b < 256 \<and> \<not> unreserved b"
    proof (cases "c < 128")
      case True
      with b have "b = c" by (simp add: utf8_ascii)
      with True False show ?thesis by (auto dest: query_char_unreserved)
    next
      case high: False
      with utf8_high [of c b] b have "128 \<le> b" by simp
      with utf8_byte [OF assms(2) b] show ?thesis by (simp add: unreserved_def)
    qed
  qed
  moreover from False have "sent_as c = concat (map percent_escape (utf8 c))"
    by (auto simp: sent_as_def)
  ultimately show ?thesis
    using unquote_escapes [OF _ assms(3)] by simp
qed

lemma unquote_sent:
  assumes "\<forall>c\<in>set s. c \<noteq> 37 \<and> c < 1114112"
  shows "unquote_unreserved (concat (map sent_as s)) = Some (concat (map sent_as s))"
  using assms
proof (induction s)
  case Nil
  show ?case by simp
next
  case (Cons c s)
  then have "unquote_unreserved (concat (map sent_as s)) = Some (concat (map sent_as s))"
    by simp
  from unquote_sent_as [OF _ _ this, of c] Cons.prems show ?case
    by simp
qed

lemma quote_safe:
  "\<forall>c\<in>set s. c < 128 \<and> (unreserved c \<or> c \<in> set safe) \<Longrightarrow> quote safe s = s"
  by (induction s) (simp_all add: quote_def)

lemma sent_as_safe:
  assumes "x \<in> set (sent_as c)" and "c < 1114112"
  shows "x < 128 \<and> (unreserved x \<or>
     x \<in> set [33, 35, 36, 37, 38, 39, 40, 41, 42, 43, 44, 47, 58, 59, 61, 63, 64, 91, 93, 126])"
proof (cases "c < 128 \<and> query_char c")
  case True
  with assms have "x = c" by (simp add: sent_as_def)
  with True show ?thesis by (auto simp: query_char_def)
next
  case False
  with assms obtain b where b: "b \<in> set (utf8 c)" and x: "x \<in> set (percent_escape b)"
    by (auto simp: sent_as_def)
  from utf8_byte [OF assms(2) b] have d: "b div 16 < 16" "b mod 16 < 16"
    by simp_all
  from x have "x = 37 \<or> x = hex_digit (b div 16) \<or> x = hex_digit (b mod 16)"
    by (auto simp: percent_escape_def)
  then show ?thesis
    using hex_digit_facts(5,6) [OF d(1)] hex_digit_facts(5,6) [OF d(2)] by auto
qed

lemma requote_sent:
  assumes "\<forall>c\<in>set s. c \<noteq> 37 \<and> c < 1114112"
  shows "requote_uri (concat (map sent_as s)) = concat (map sent_as s)"
proof -
  have "\<forall>x\<in>set (concat (map sent_as s)). x < 128 \<and> (unreserved x \<or>
     x \<in> set [33, 35, 36, 37, 38, 39, 40, 41, 42, 43, 44, 47, 58, 59, 61, 63, 64, 91, 93, 126])"
    using sent_as_safe assms by auto
  then show ?thesis
    by (simp only: requote_uri_def unquote_sent [OF assms] option.case quote_safe)
qed

lemma sent_as_query_char: "c < 128 \<Longrightarrow> query_char c \<Longrightarrow> sent_as c = [c]"
  by (simp add: sent_as_def)

lemma sent_as_literal:
  "\<forall>c\<in>set s. c < 128 \<and> query_char c \<Longrightarrow> concat (map sent_as s) = s"
  by (induction s) (simp_all add: sent_as_query_char)


lemma starts_with_append: "starts_with (p @ s) p"
  by (induction p) simp_all

lemma prepare_search_url:
  assumes "\<forall>c\<in>set q. c \<noteq> 37 \<and> c \<noteq> 35 \<and> c < 1114112"
  shows "prepare_url (search_url q)
           = Some (lit ''https://api.duckduckgo.com/?q='' @ concat (map sent_as q)
               @ lit ''&format=json&no_redirect=1'')"
proof -
  let ?base = "lit ''https://api.duckduckgo.com/''"
  let ?rest = "lit ''q='' @ q @ lit ''&format=json&no_redirect=1''"
  have u: "search_url q = (?base @ [63]) @ ?rest"
    by (simp add: search_url_def lit_def)
  have plain: "\<forall>c\<in>set ?rest. c \<noteq> 37 \<and> c \<noteq> 35 \<and> c < 1114112"
    using assms by (auto simp: lit_def)
  then have r35: "takeWhile (\<lambda>c. c \<noteq> 35) ?rest = ?rest"
    and d35: "dropWhile (\<lambda>c. c \<noteq> 35) ?rest = []"
    by (simp_all only: takeWhile_eq_all_conv dropWhile_eq_Nil_conv) auto
  have ne: "?rest \<noteq> []"
    by simp
  have p37: "37 \<notin> set ?rest"
    using plain by blast
  have whole: "\<forall>c\<in>set ((?base @ [63]) @ ?rest). c \<noteq> 37 \<and> c < 1114112"
    using assms by (auto simp: lit_def)
  have lits: "concat (map sent_as ?base) = ?base" "sent_as 63 = [63]"
    "concat (map sent_as (lit ''q='')) = lit ''q=''"
    "concat (map sent_as (lit ''&format=json&no_redirect=1'')) = lit ''&format=json&no_redirect=1''"
    by (rule sent_as_literal, simp add: lit_def query_char_def unreserved_def,
        simp add: sent_as_def query_char_def,
        (rule sent_as_literal, simp add: lit_def query_char_def unreserved_def)+)
  have form: "?base @ [63] @ encode_invalid_chars ?rest
      = concat (map sent_as ((?base @ [63]) @ ?rest))"
    by (simp add: encode_plain [OF p37] lits)
  have sw: "starts_with (search_url q) (?base @ [63])"
    unfolding u by (rule starts_with_append)
  have dr: "drop (length ?base + 1) (search_url q) = ?rest"
    unfolding u by simp
  have "prepare_url (search_url q)
      = Some (requote_uri (?base @ [63] @ encode_invalid_chars ?rest))"
    unfolding prepare_url_def Let_def
    by (simp only: sw dr r35 d35 if_True) (simp add: ne)
  also have "\<dots> = Some (concat (map sent_as ((?base @ [63]) @ ?rest)))"
    unfolding form by (simp only: requote_sent [OF whole])
  also have "\<dots> = Some (lit ''https://api.duckduckgo.com/?q='' @ concat (map sent_as q)
               @ lit ''&format=json&no_redirect=1'')"
  proof -
    have "lit ''https://api.duckduckgo.com/?q='' = ?base @ [63] @ lit ''q=''"
      by (simp add: lit_def)
    then show ?thesis
      by (simp add: lits)
  qed
  finally show ?thesis .
qed

lemma sent_as_spec:
  "\<forall>c\<in>set q. \<not> url_delimiter c \<Longrightarrow> concat (map sent_as q) = spec_url_encode q"
proof (induction q)
  case Nil
  show ?case by (simp add: spec_url_encode_def)
next
  case (Cons c q)
  then have "\<not> url_delimiter c" by simp
  then have "sent_as c = (if unreserved c then [c] else concat (map percent_escape (utf8 c)))"
    by (auto simp: sent_as_def url_delimiter_def query_char_def unreserved_def)
  with Cons show ?case
    by (simp add: spec_url_encode_def)
qed

lemma sent_as_le:
  "length (sent_as c)
     \<le> length (if unreserved c then [c] else concat (map percent_escape (utf8 c)))"
proof (cases "c < 128 \<and> query_char c")
  case True
  then show ?thesis
    by (simp add: sent_as_def utf8_ascii percent_escape_def)
next
  case False
  then have "\<not> unreserved c"
    by (auto simp: query_char_def unreserved_def)
  moreover from False have "sent_as c = concat (map percent_escape (utf8 c))"
    by (auto simp: sent_as_def)
  ultimately show ?thesis
    by simp
qed

lemma sent_as_delimiter:
  assumes "url_delimiter c" and "c \<noteq> 37" and "c \<noteq> 35"
  shows "length (sent_as c)
     < length (if unreserved c then [c] else concat (map percent_escape (utf8 c)))"
proof -
  from assms have "c < 128" and "query_char c" and "\<not> unreserved c"
    by (auto simp: url_delimiter_def query_char_def unreserved_def)
  then show ?thesis
    by (simp add: sent_as_def utf8_ascii percent_escape_def)
qed

lemma sent_length_le: "length (concat (map sent_as q)) \<le> length (spec_url_encode q)"
proof (induction q)
  case Nil
  show ?case by (simp add: spec_url_encode_def)
next
  case (Cons c q)
  with sent_as_le [of c] show ?case
    by (simp add: spec_url_encode_def)
qed

lemma sent_length_less:
  assumes "\<exists>c\<in>set q. url_delimiter c \<and> c \<noteq> 37 \<and> c \<noteq> 35"
  shows "length (concat (map sent_as q)) < length (spec_url_encode q)"
  using assms
proof (induction q)
  case Nil
  then show ?case by simp
next
  case (Cons c q)
  show ?case
  proof (cases "url_delimiter c \<and> c \<noteq> 37 \<and> c \<noteq> 35")
    case True
    with sent_as_delimiter [of c] sent_length_le [of q] show ?thesis
      by (simp add: spec_url_encode_def)
  next
    case False
    with Cons.prems have "\<exists>c\<in>set q. url_delimiter c \<and> c \<noteq> 37 \<and> c \<noteq> 35"
      by auto
    from Cons.IH [OF this] sent_as_le [of c] show ?thesis
      by (simp add: spec_url_encode_def)
  qed
qed

lemma prepare_not_encoded:
  assumes "\<forall>c\<in>set q. c \<noteq> 37 \<and> c \<noteq> 35 \<and> c < 1114112"
    and "\<exists>c\<in>set q. url_delimiter c"
  shows "prepare_url (search_url q) \<noteq> Some (spec_search_url q)"
proof
  assume e: "prepare_url (search_url q) = Some (spec_search_url q)"
  from assms have "\<exists>c\<in>set q. url_delimiter c \<and> c \<noteq> 37 \<and> c \<noteq> 35"
    by blast
  from sent_length_less [OF this]
  have "concat (map sent_as q) \<noteq> spec_url_encode q"
    by auto
  with e prepare_search_url [OF assms(1)] show False
    by (simp add: spec_search_url_def)
qed

text \<open>
  Claim C6, as the code has it.  The program puts the query into the URL as it was
  typed and hands that URL to the HTTP library; the encoding of the request URL is the
  library's.  For every query without \<open>%\<close> and \<open>#\<close>, the request URL is the fixed
  prefix, the query with each character as \<open>sent_as\<close> gives it, and the fixed suffix:
  a character is percent-encoded unless it is unreserved or one of
  \<open>! $ & ' ( ) * + , ; = : @ / ?\<close>, which go out as typed.  So for every query free
  of these delimiters the request URL is the one with the URL-encoded query, and for
  every query that has one of them it is not.
\<close>

theorem request_url_encoding:
  assumes "\<forall>c\<in>set q. c < 1114112"
  shows "sent (snd (search_web rt w q a)) = sent a @ [GET (search_url q) 10] \<and>
         (37 \<notin> set q \<and> 35 \<notin> set q \<longrightarrow>
            prepare_url (search_url q)
              = Some (lit ''https://api.duckduckgo.com/?q='' @ concat (map sent_as q)
                  @ lit ''&format=json&no_redirect=1'')) \<and>
         ((\<forall>c\<in>set q. \<not> url_delimiter c) \<longrightarrow>
            prepare_url (search_url q) = Some (spec_search_url q)) \<and>
         (37 \<notin> set q \<and> 35 \<notin> set q \<and> (\<exists>c\<in>set q. url_delimiter c) \<longrightarrow>
            prepare_url (search_url q) \<noteq> Some (spec_search_url q))"
proof (intro conjI impI)
  show "prepare_url (search_url q) \<noteq> Some (spec_search_url q)"
    if "37 \<notin> set q \<and> 35 \<notin> set q \<and> (\<exists>c\<in>set q. url_delimiter c)"
    using that assms by (intro prepare_not_encoded) auto
  show "sent (snd (search_web rt w q a)) = sent a @ [GET (search_url q) 10]"
    by (simp add: search_web_eq)
  show "prepare_url (search_url q)
      = Some (lit ''https://api.duckduckgo.com/?q='' @ concat (map sent_as q)
          @ lit ''&format=json&no_redirect=1'')"
    if "37 \<notin> set q \<and> 35 \<notin> set q"
    using that assms by (intro prepare_search_url) auto
  show "prepare_url (search_url q) = Some (spec_search_url q)"
    if d: "\<forall>c\<in>set q. \<not> url_delimiter c"
  proof -
    from d have "\<forall>c\<in>set q. c \<noteq> 37 \<and> c \<noteq> 35"
      by (auto simp: url_delimiter_def)
    with assms have "\<forall>c\<in>set q. c \<noteq> 37 \<and> c \<noteq> 35 \<and> c < 1114112"
      by blast
    from prepare_search_url [OF this] show ?thesis
      by (simp add: sent_as_spec [OF d] spec_search_url_def)
  qed
qed

theorem request_url_encoding_witness:
  "prepare_url (search_url (lit ''UK GDP caf'' @ [233]))
     = Some (lit ''https://api.duckduckgo.com/?q=UK%20GDP%20caf%C3%A9&format=json&no_redirect=1'') \<and>
   spec_search_url (lit ''UK GDP caf'' @ [233])
     = lit ''https://api.duckduckgo.com/?q=UK%20GDP%20caf%C3%A9&format=json&no_redirect=1'' \<and>
   prepare_url (search_url (lit ''Q&A: 1+1''))
     = Some (lit ''https://api.duckduckgo.com/?q=Q&A:%201+1&format=json&no_redirect=1'') \<and>
   prepare_url (search_url (lit ''Q&A: 1+1'')) \<noteq> Some (spec_search_url (lit ''Q&A: 1+1''))"
proof -
  let ?q = "lit ''UK GDP caf'' @ [233]"
  let ?r = "lit ''Q&A: 1+1''"
  have v: "\<forall>c\<in>set ?q. c < 1114112" and vr: "\<forall>c\<in>set ?r. c < 1114112"
    by (simp_all add: lit_def)
  have d: "\<forall>c\<in>set ?q. \<not> url_delimiter c"
    by (simp add: lit_def url_delimiter_def)
  have dr: "37 \<notin> set ?r \<and> 35 \<notin> set ?r" "\<exists>c\<in>set ?r. url_delimiter c"
    by (simp_all add: lit_def url_delimiter_def)
  have s: "spec_search_url ?q
      = lit ''https://api.duckduckgo.com/?q=UK%20GDP%20caf%C3%A9&format=json&no_redirect=1''"
    by (simp add: spec_search_url_def spec_url_encode_def lit_def unreserved_def utf8_def
        percent_escape_def hex_digit_def)
  have t: "lit ''https://api.duckduckgo.com/?q='' @ concat (map sent_as ?r)
        @ lit ''&format=json&no_redirect=1''
      = lit ''https://api.duckduckgo.com/?q=Q&A:%201+1&format=json&no_redirect=1''"
    by (simp add: lit_def sent_as_def query_char_def unreserved_def utf8_def
        percent_escape_def hex_digit_def)
  from request_url_encoding [OF v, of demo_runtime demo_world initial_app] d
  have "prepare_url (search_url ?q) = Some (spec_search_url ?q)"
    by blast
  moreover from request_url_encoding [OF vr, of demo_runtime demo_world initial_app] dr
  have "prepare_url (search_url ?r)
      = Some (lit ''https://api.duckduckgo.com/?q='' @ concat (map sent_as ?r)
          @ lit ''&format=json&no_redirect=1'')"
    and "prepare_url (search_url ?r) \<noteq> Some (spec_search_url ?r)"
    by blast+
  ultimately show ?thesis
    using s t by simp
qed

text \<open>
  Claim C6, as it is stated, fails for the query \<open>R&D\<close>: the ampersand is in the request
  URL unescaped, where it ends the \<open>q\<close> parameter, while the URL-encoded query has
  \<open>%26\<close>.
\<close>

theorem request_url_ampersand:
  "prepare_url (search_url (lit ''R&D''))
     = Some (lit ''https://api.duckduckgo.com/?q=R&D&format=json&no_redirect=1'') \<and>
   spec_search_url (lit ''R&D'')
     = lit ''https://api.duckduckgo.com/?q=R%26D&format=json&no_redirect=1'' \<and>
   prepare_url (search_url (lit ''R&D'')) \<noteq> Some (spec_search_url (lit ''R&D''))"
proof -
  have "\<forall>c\<in>set (lit ''R&D''). c \<noteq> 37 \<and> c \<noteq> 35 \<and> c < 1114112"
    by (simp add: lit_def)
  from prepare_search_url [OF this]
  have p: "prepare_url (search_url (lit ''R&D''))
      = Some (lit ''https://api.duckduckgo.com/?q=R&D&format=json&no_redirect=1'')"
    by (simp add: lit_def sent_as_def query_char_def unreserved_def)
  have s: "spec_search_url (lit ''R&D'')
      = lit ''https://api.duckduckgo.com/?q=R%26D&format=json&no_redirect=1''"
    by (simp add: spec_search_url_def spec_url_encode_def lit_def unreserved_def utf8_def
        percent_escape_def hex_digit_def)
  show ?thesis
    unfolding p s by (simp add: lit_def)
qed

end
